theory Spec2Isabelle
  imports Main "HOL-Library.Sublist" "HOL-Library.AList" "HOL-Library.Finite_Map"
begin

section \<open>Python errors\<close>

text \<open>
  Every exception the modelled code can raise is a value. The builtin exceptions keep
  their Python names; \<open>PyException\<close> is a plain \<^verbatim>\<open>raise Exception(msg)\<close> and
  \<open>CompilationException\<close> is what \<^verbatim>\<open>raise_compiler_error(msg)\<close> raises.
\<close>

datatype error =
    KeyError
  | ValueError
  | AttributeError
  | IndexError
  | TypeError
  | UnboundLocalError
  | PyException string
  | CompilationException string
  | ResolverError

section \<open>Static extraction of macro calls (\<^verbatim>\<open>clients/jinja_static.py\<close>)\<close>

subsection \<open>The parsed template\<close>

text \<open>
  The template parser is an external collaborator; the functions below work on its parse
  tree. \<open>jnode\<close> has the node classes the code tells apart: \<open>Name\<close> (attribute
  \<^verbatim>\<open>name\<close>), \<open>Const\<close> (attribute \<^verbatim>\<open>value\<close>, here a string literal),
  \<open>Getattr\<close> (\<^verbatim>\<open>node\<close>, \<^verbatim>\<open>attr\<close>), \<open>Call\<close> (\<^verbatim>\<open>node\<close>, \<^verbatim>\<open>args\<close>,
  \<^verbatim>\<open>kwargs\<close>, \<^verbatim>\<open>dyn_args\<close>, \<^verbatim>\<open>dyn_kwargs\<close>), \<open>JList\<close> (\<^verbatim>\<open>items\<close>),
  \<open>Add\<close> (\<^verbatim>\<open>left\<close>, \<^verbatim>\<open>right\<close>), and \<open>Other\<close> for every node class that has
  none of these attributes (template body, output statements and so on), with its child
  nodes. A keyword argument \<^verbatim>\<open>Keyword(key, value)\<close> occurs only in the
  \<^verbatim>\<open>kwargs\<close> of a call and is the pair \<open>(key, value)\<close> there.
\<close>

datatype jnode =
    Name string
  | Const string
  | Getattr jnode string
  | Call jnode "jnode list" "(string \<times> jnode) list" "jnode option" "jnode option"
  | JList "jnode list"
  | Add jnode jnode
  | Other "jnode list"

fun type_name :: "jnode \<Rightarrow> string" where
  "type_name (Name _) = ''Name''"
| "type_name (Const _) = ''Const''"
| "type_name (Getattr _ _) = ''Getattr''"
| "type_name (Call _ _ _ _ _) = ''Call''"
| "type_name (JList _) = ''List''"
| "type_name (Add _ _) = ''Add''"
| "type_name (Other _) = ''Other''"

text \<open>Attribute reads; \<open>None\<close> where \<^verbatim>\<open>hasattr\<close> is false and a read raises.\<close>

fun attr_name :: "jnode \<Rightarrow> string option" where
  "attr_name (Name n) = Some n"
| "attr_name _ = None"

fun attr_node :: "jnode \<Rightarrow> jnode option" where
  "attr_node (Getattr n _) = Some n"
| "attr_node (Call n _ _ _ _) = Some n"
| "attr_node _ = None"

fun attr_attr :: "jnode \<Rightarrow> string option" where
  "attr_attr (Getattr _ a) = Some a"
| "attr_attr _ = None"

fun attr_value :: "jnode \<Rightarrow> error + string" where
  "attr_value (Const v) = Inr v"
| "attr_value _ = Inl AttributeError"

fun attr_items :: "jnode \<Rightarrow> error + jnode list" where
  "attr_items (JList xs) = Inr xs"
| "attr_items _ = Inl AttributeError"

fun opt_list :: "'a option \<Rightarrow> 'a list" where
  "opt_list None = []"
| "opt_list (Some x) = [x]"

text \<open>The child nodes, in the order of the node's fields.\<close>

fun iter_child_nodes :: "jnode \<Rightarrow> jnode list" where
  "iter_child_nodes (Name _) = []"
| "iter_child_nodes (Const _) = []"
| "iter_child_nodes (Getattr n _) = [n]"
| "iter_child_nodes (Call n as ks da dk) = n # as @ map snd ks @ opt_list da @ opt_list dk"
| "iter_child_nodes (JList xs) = xs"
| "iter_child_nodes (Add l r) = [l, r]"
| "iter_child_nodes (Other xs) = xs"

fun is_Call :: "jnode \<Rightarrow> bool" where
  "is_Call (Call _ _ _ _ _) = True"
| "is_Call _ = False"

lemma size_option_opt_list: "c \<in> set (opt_list x) \<Longrightarrow> size c < Suc (size_option size x)"
  by (cases x) auto

lemma size_iter_child_nodes: "c \<in> set (iter_child_nodes n) \<Longrightarrow> size c < size n"
proof (cases n)
  case (Call f as ks da dk)
  assume "c \<in> set (iter_child_nodes n)"
  with Call consider "c = f" | "c \<in> set as" | "c \<in> snd ` set ks"
    | "c \<in> set (opt_list da)" | "c \<in> set (opt_list dk)"
    by auto
  then show ?thesis
  proof cases
    case 1 with Call show ?thesis by simp
  next
    case 2 with Call show ?thesis using size_list_estimation' [of c as "size c" size] by simp
  next
    case 3
    then obtain k where "(k, c) \<in> set ks" by auto
    with Call show ?thesis
      using size_list_estimation' [of "(k, c)" ks "size c" "size_prod (\<lambda>_. 0) size"] by simp
  next
    case 4 with Call show ?thesis using size_option_opt_list [of c da] by simp
  next
    case 5 with Call show ?thesis using size_option_opt_list [of c dk] by simp
  qed
next
  case (JList xs)
  assume "c \<in> set (iter_child_nodes n)"
  with JList show ?thesis using size_list_estimation' [of c xs "size c" size] by simp
next
  case (Other xs)
  assume "c \<in> set (iter_child_nodes n)"
  with Other show ?thesis using size_list_estimation' [of c xs "size c" size] by simp
qed auto

text \<open>
  \<^verbatim>\<open>node.find_all(jinja2.nodes.Call)\<close>: every \<open>Call\<close> below the node, each child
  before its own descendants, children from left to right.
\<close>

function find_all_Call :: "jnode \<Rightarrow> jnode list" where
  "find_all_Call n =
     concat (map (\<lambda>c. (if is_Call c then [c] else []) @ find_all_Call c) (iter_child_nodes n))"
  by pat_completeness auto
termination
  by (relation "measure size") (auto simp: size_iter_child_nodes)

declare find_all_Call.simps [simp del]

subsection \<open>Collaborators\<close>

text \<open>
  The rendering context \<^verbatim>\<open>ctx\<close> is read in two ways: \<^verbatim>\<open>ctx.get(name)\<close> is tested
  for truth (\<open>ctx_get\<close>), and \<^verbatim>\<open>ctx['var'](name)\<close> looks a project variable up
  (\<open>ctx_var\<close>; \<open>None\<close> when the lookup or the following list concatenation raises,
  which \<^verbatim>\<open>get_dispatch_list\<close> catches).

  \<^verbatim>\<open>db_wrapper.dispatch(macro_name, packages).macro\<close> is the dispatch resolver: it
  returns a macro, of which \<^verbatim>\<open>package_name\<close> and \<^verbatim>\<open>name\<close> are read, or raises.
\<close>

record ctx =
  ctx_get :: "string \<Rightarrow> bool"
  ctx_var :: "string \<Rightarrow> string list option"

record resolved_macro =
  package_name :: string
  macro_name :: string

type_synonym db_wrapper = "string option \<Rightarrow> string list option \<Rightarrow> error + resolved_macro"

subsection \<open>Sequencing of fallible steps\<close>

text \<open>
  \<open>and_then r k\<close> runs \<open>k\<close> on the value of \<open>r\<close> unless \<open>r\<close> raised;
  \<open>values_of\<close> is the loop \<^verbatim>\<open>for item in items: out.append(item.value)\<close>.
\<close>

definition and_then :: "'x + 'a \<Rightarrow> ('a \<Rightarrow> 'x + 'b) \<Rightarrow> 'x + 'b" where
  "and_then r k = (case r of Inr v \<Rightarrow> k v | Inl err \<Rightarrow> Inl err)"

fun values_of :: "jnode list \<Rightarrow> error + string list" where
  "values_of [] = Inr []"
| "values_of (item # items) =
     and_then (attr_value item) (\<lambda>v. and_then (values_of items) (\<lambda>vs. Inr (v # vs)))"

subsection \<open>\<^verbatim>\<open>get_dispatch_list\<close>\<close>

definition get_dispatch_list :: "ctx \<Rightarrow> string \<Rightarrow> string list \<Rightarrow> string list" where
  "get_dispatch_list c var_name default_packages =
     (let namespace_list =
            (case ctx_var c var_name of
               None \<Rightarrow> None
             | Some l \<Rightarrow> Some (l @ default_packages))
      in case namespace_list of
           None \<Rightarrow> default_packages
         | Some l \<Rightarrow> if l \<noteq> [] then l else default_packages)"

subsection \<open>\<^verbatim>\<open>statically_parse_adapter_dispatch\<close>\<close>

definition sq :: string where
  "sq = [CHR 0x27]"

definition custom_macro_msg :: "string \<Rightarrow> string" where
  "custom_macro_msg name =
     ''As of v0.19.2, custom macros, such as '' @ sq @ name @ sq
     @ '', are no longer supported in the '' @ sq @ ''packages'' @ sq @ '' argument of ''
     @ sq @ ''adapter.dispatch()'' @ sq @ ''.'' @ [CHR 0x0A]
     @ ''See https://docs.getdbt.com/reference/dbt-jinja-functions/dispatch for details.''"

definition macro_name_msg :: "string \<Rightarrow> string" where
  "macro_name_msg v =
     ''The macro_name parameter ('' @ v @ '') to adapter.dispatch was not a string''"

text \<open>
  The loop over the keyword arguments. Its state is the three locals it assigns:
  \<^verbatim>\<open>packages_arg\<close> (\<^verbatim>\<open>packages_arg_type\<close> is the class name of that node),
  \<^verbatim>\<open>func_name\<close> and \<^verbatim>\<open>possible_macro_calls\<close>.
\<close>

fun dispatch_kwargs ::
  "(string \<times> jnode) list \<Rightarrow> jnode option \<times> string option \<times> string list
     \<Rightarrow> error + jnode option \<times> string option \<times> string list" where
  "dispatch_kwargs [] acc = Inr acc"
| "dispatch_kwargs ((key, v) # kwargs) (packages_arg, func_name, possible_macro_calls) =
     (if key = ''packages'' then
        dispatch_kwargs kwargs (Some v, func_name, possible_macro_calls)
      else if key = ''macro_name'' then
        (if type_name v = ''Const'' then
           and_then (attr_value v) (\<lambda>s.
             dispatch_kwargs kwargs (packages_arg, Some s, possible_macro_calls @ [s]))
         else
           and_then (attr_value v) (\<lambda>s. Inl (CompilationException (macro_name_msg s))))
      else dispatch_kwargs kwargs (packages_arg, func_name, possible_macro_calls))"

text \<open>The loop of the \<^verbatim>\<open>Add\<close> branch over the calls inside the packages expression.\<close>

fun add_var_calls :: "jnode list \<Rightarrow> string option \<Rightarrow> error + string option" where
  "add_var_calls [] namespace_var = Inr namespace_var"
| "add_var_calls (var_call # rest) namespace_var =
     (case attr_node var_call of
        None \<Rightarrow> add_var_calls rest namespace_var
      | Some n \<Rightarrow>
          (case attr_name n of
             None \<Rightarrow> Inl AttributeError
           | Some nm \<Rightarrow>
               if nm = ''var'' then
                 (case var_call of
                    Call _ (a # _) _ _ _ \<Rightarrow>
                      and_then (attr_value a) (\<lambda>v. add_var_calls rest (Some v))
                  | Call _ [] _ _ _ \<Rightarrow> Inl IndexError
                  | _ \<Rightarrow> add_var_calls rest namespace_var)
               else add_var_calls rest namespace_var))"

text \<open>
  The candidate packages read off the \<^verbatim>\<open>packages\<close> argument (the block under
  \<^verbatim>\<open>if packages_arg:\<close>; a node object is always true).
\<close>

definition dispatch_packages :: "ctx \<Rightarrow> jnode \<Rightarrow> error + string list" where
  "dispatch_packages c packages_arg =
     (if type_name packages_arg = ''List'' then
        and_then (attr_items packages_arg) values_of
      else if type_name packages_arg = ''Call'' then
        (case attr_node packages_arg of
           None \<Rightarrow> Inr []
         | Some n \<Rightarrow>
             (case attr_node n of
                None \<Rightarrow> Inr []
              | Some nn \<Rightarrow>
                  (case (attr_name nn, attr_attr n) of
                     (Some pkg, Some name) \<Rightarrow>
                       if prefix ''_get'' name \<and> sublist ''namespaces'' name then
                         (let var_name = pkg @ ''_dispatch_list'';
                              namespace_names = get_dispatch_list c var_name [pkg]
                          in Inr namespace_names)
                       else Inl (CompilationException (custom_macro_msg name))
                   | _ \<Rightarrow> Inr [])))
      else if type_name packages_arg = ''Add'' then
        and_then (add_var_calls (find_all_Call packages_arg) None) (\<lambda>namespace_var.
          and_then (case packages_arg of
                  Add _ r \<Rightarrow> and_then (attr_items r) values_of
                | _ \<Rightarrow> Inr []) (\<lambda>default_namespaces.
            (case namespace_var of
               None \<Rightarrow> Inr []
             | Some nv \<Rightarrow>
                 if nv \<noteq> [] then Inr (get_dispatch_list c nv default_namespaces)
                 else Inr [])))
      else Inr [])"

definition str_of_name :: "string option \<Rightarrow> string" where
  "str_of_name func_name = (case func_name of None \<Rightarrow> ''None'' | Some s \<Rightarrow> s)"

definition statically_parse_adapter_dispatch ::
  "jnode \<Rightarrow> ctx \<Rightarrow> db_wrapper option \<Rightarrow> error + string list" where
  "statically_parse_adapter_dispatch func_call c wrapper =
     (case func_call of
        Call _ args kwargs _ _ \<Rightarrow>
          and_then (case args of
                  [] \<Rightarrow> Inr None
                | a # _ \<Rightarrow> and_then (attr_value a) (\<lambda>v. Inr (Some v))) (\<lambda>func_name.
          let possible_macro_calls =
                (case func_name of
                   None \<Rightarrow> []
                 | Some v \<Rightarrow> if v \<noteq> [] then [v] else []);
              packages_arg = (case args of _ # b # _ \<Rightarrow> Some b | _ \<Rightarrow> None)
          in
          and_then (dispatch_kwargs kwargs (packages_arg, func_name, possible_macro_calls))
            (\<lambda>(packages_arg, func_name, possible_macro_calls).
          and_then (case packages_arg of
                  None \<Rightarrow> Inr []
                | Some pa \<Rightarrow> dispatch_packages c pa) (\<lambda>packages.
          (case wrapper of
             Some dispatch \<Rightarrow>
               and_then (dispatch func_name (if packages = [] then None else Some packages))
                 (\<lambda>m. Inr (possible_macro_calls @ [package_name m @ ''.'' @ macro_name m]))
           | None \<Rightarrow>
               Inr (possible_macro_calls
                    @ map (\<lambda>pkg. pkg @ ''.'' @ str_of_name func_name) packages)))))
      | _ \<Rightarrow> Inl AttributeError)"

subsection \<open>\<^verbatim>\<open>statically_extract_macro_calls\<close>\<close>

definition standard_calls :: "string list" where
  "standard_calls = [''source'', ''ref'', ''config'']"

text \<open>
  The tail of the loop body, from \<^verbatim>\<open>if not func_name: continue\<close> on.
\<close>

definition record_call :: "ctx \<Rightarrow> string option \<Rightarrow> string list \<Rightarrow> string list" where
  "record_call c func_name possible_macro_calls =
     (case func_name of
        None \<Rightarrow> possible_macro_calls
      | Some f \<Rightarrow>
          if f = [] then possible_macro_calls
          else if f \<in> set standard_calls then possible_macro_calls
          else if ctx_get c f then possible_macro_calls
          else if f \<notin> set possible_macro_calls then possible_macro_calls @ [f]
          else possible_macro_calls)"

fun extract_loop ::
  "jnode list \<Rightarrow> ctx \<Rightarrow> db_wrapper option \<Rightarrow> string list \<Rightarrow> error + string list" where
  "extract_loop [] c wrapper possible_macro_calls = Inr possible_macro_calls"
| "extract_loop (func_call # rest) c wrapper possible_macro_calls =
     (case attr_node func_call of
        None \<Rightarrow> extract_loop rest c wrapper possible_macro_calls
      | Some n \<Rightarrow>
          (case attr_name n of
             Some nm \<Rightarrow> extract_loop rest c wrapper (record_call c (Some nm) possible_macro_calls)
           | None \<Rightarrow>
               (case (attr_node n, attr_attr n) of
                  (Some nn, Some name) \<Rightarrow>
                    if type_name nn = ''Name'' then
                      (case attr_name nn of
                         None \<Rightarrow> Inl AttributeError
                       | Some pkg \<Rightarrow>
                           if pkg = ''adapter'' then
                             (if name = ''dispatch'' then
                                and_then (statically_parse_adapter_dispatch func_call c wrapper)
                                  (\<lambda>ad_macro_calls.
                                     extract_loop rest c wrapper
                                       (record_call c None (possible_macro_calls @ ad_macro_calls)))
                              else extract_loop rest c wrapper possible_macro_calls)
                           else
                             extract_loop rest c wrapper
                               (record_call c (Some (pkg @ ''.'' @ name)) possible_macro_calls))
                    else extract_loop rest c wrapper possible_macro_calls
                | _ \<Rightarrow> extract_loop rest c wrapper possible_macro_calls)))"

text \<open>
  The argument \<open>parsed\<close> is \<^verbatim>\<open>env.parse(string)\<close>, the parse tree of the template.
\<close>

definition statically_extract_macro_calls ::
  "jnode \<Rightarrow> ctx \<Rightarrow> db_wrapper option \<Rightarrow> error + string list" where
  "statically_extract_macro_calls parsed c wrapper =
     extract_loop (find_all_Call parsed) c wrapper []"

subsection \<open>Example templates\<close>

text \<open>
  The call \<^verbatim>\<open>adapter.dispatch('current_timestamp', packages=['dbt_utils'])\<close> as the
  parser builds it, and a template whose output statement is that call.
\<close>

definition dispatch_call :: jnode where
  "dispatch_call =
     Call (Getattr (Name ''adapter'') ''dispatch'') [Const ''current_timestamp'']
       [(''packages'', JList [Const ''dbt_utils''])] None None"

definition dispatch_template :: jnode where
  "dispatch_template = Other [Other [dispatch_call]]"

definition utils_resolver :: db_wrapper where
  "utils_resolver func_name packages =
     (if func_name = Some ''current_timestamp'' \<and> packages = Some [''dbt_utils'']
      then Inr \<lparr>package_name = ''dbt_utils'', macro_name = ''default__current_timestamp''\<rparr>
      else Inl ResolverError)"

definition empty_ctx :: ctx where
  "empty_ctx = \<lparr>ctx_get = (\<lambda>_. False), ctx_var = (\<lambda>_. None)\<rparr>"

text \<open>
  \<^verbatim>\<open>adapter.dispatch(func_name, packages=packages_arg)\<close> for any expression in the
  \<^verbatim>\<open>packages\<close> position, and a template whose output statement is
  \<^verbatim>\<open>adapter.dispatch('foo', packages=...)\<close>.
\<close>

definition custom_dispatch_call :: "string \<Rightarrow> jnode \<Rightarrow> jnode" where
  "custom_dispatch_call func_name packages_arg =
     Call (Getattr (Name ''adapter'') ''dispatch'') [Const func_name]
       [(''packages'', packages_arg)] None None"

definition custom_template :: "jnode \<Rightarrow> jnode" where
  "custom_template packages_arg = Other [Other [custom_dispatch_call ''foo'' packages_arg]]"

definition visit_Call :: "jnode \<Rightarrow> jnode list" where
  "visit_Call c = (if is_Call c then [c] else []) @ find_all_Call c"

section \<open>Partial parsing (\<^verbatim>\<open>parser/partial.py\<close>)\<close>

subsection \<open>Data model\<close>

text \<open>
  The kinds of source file that \<^verbatim>\<open>partial.py\<close> tells apart. The enumeration
  \<^verbatim>\<open>ParseFileType\<close> is declared outside the modelled sources; these are the members
  the module names.
\<close>

datatype parse_file_type =
  Macro | Model | Snapshot | Analysis | Test | Seed | Documentation | Schema

text \<open>
  YAML values (a boolean is the integer 0 or 1, as in Python). A schema file's document (\<^verbatim>\<open>dict_from_yaml\<close>, and the pending patch
  \<^verbatim>\<open>pp_dict\<close> built from it) is a Python dict with a \<^verbatim>\<open>version\<close> entry and one
  list of elements per section key; an element is a dict. Dicts are finite maps, so two
  elements are equal exactly when Python's \<^verbatim>\<open>==\<close> says so.
\<close>

datatype yval =
    YStr string
  | YInt int
  | YNull
  | YList "yval list"
  | YDict "(string, yval) fmap"

type_synonym element = "(string, yval) fmap"

record yaml_dict =
  version :: "yval option"
  sections :: "(string, element list) fmap"

definition empty_yaml :: yaml_dict where
  "empty_yaml = \<lparr>version = None, sections = fmempty\<rparr>"

text \<open>
  Manifest entities, with the attributes the module reads. \<^verbatim>\<open>node.file_id()\<close> and
  \<^verbatim>\<open>macro.file_id()\<close> are methods of classes declared outside the modelled sources.

  Modelled from the spec: \<open>node_file_id\<close> and \<open>macro_file_id\<close> are the results of
  \<^verbatim>\<open>file_id()\<close>, the id of the file that owns the node or macro (the data model's
  "owning file id").
\<close>

record parsed_node =
  node_name :: string
  node_file_id :: string
  patch_path :: "string option"
  depends_on_macros :: "string list"
  depends_on_nodes :: "string list"

record parsed_macro =
  macro_file_id :: string
  macro_depends_on_macros :: "string list"

record source_definition =
  source_name :: string
  table_name :: string

record parsed_exposure =
  exposure_name :: string

text \<open>
  The \<^verbatim>\<open>sources\<close> and \<^verbatim>\<open>exposures\<close> dictionaries of a manifest are untyped in
  Python, and \<^verbatim>\<open>delete_schema_source\<close> moves an entry of one into the other, so both
  hold an \<open>entity\<close>. Both classes have a \<^verbatim>\<open>name\<close> (for a source definition the
  table name); only a source definition has a \<^verbatim>\<open>source_name\<close>.
\<close>

datatype entity = SourceDef source_definition | ExposureDef parsed_exposure

fun entity_name :: "entity \<Rightarrow> string" where
  "entity_name (SourceDef s) = table_name s"
| "entity_name (ExposureDef e) = exposure_name e"

fun entity_source_name :: "entity \<Rightarrow> string option" where
  "entity_source_name (SourceDef s) = Some (source_name s)"
| "entity_source_name (ExposureDef e) = None"

text \<open>
  Source files are objects that the module mutates and shares between dictionaries, so
  they live in a store and the dictionaries hold their addresses. One record covers
  both classes; \<open>is_schema_source_file\<close> is true for a \<^verbatim>\<open>SchemaSourceFile\<close>. An
  absent or empty \<^verbatim>\<open>project_name\<close> is the empty string.

  Modelled from the spec: \<open>dict_from_yaml\<close> reads the document stored in \<^verbatim>\<open>dfy\<close>
  (the class is declared outside the modelled sources; the spec has the new document
  copied onto the saved entry of a changed schema file, which is the assignment to
  \<^verbatim>\<open>dfy\<close>).
\<close>

type_synonym addr = nat

record source_file =
  file_id :: string
  parse_file_type :: parse_file_type
  project_name :: string
  checksum :: string
  contents :: string
  is_schema_source_file :: bool
  file_nodes :: "string list"
  file_macros :: "string list"
  file_docs :: "string list"
  dfy :: yaml_dict
  pp_dict :: "yaml_dict option"
  pp_test_index :: "(string \<times> string list) list option"
  tests :: "string list"
  file_sources :: "string list"
  file_exposures :: "string list"
  node_patches :: "string list"
  macro_patches :: "string list"

definition dict_from_yaml :: "source_file \<Rightarrow> yaml_dict" where
  "dict_from_yaml sf = dfy sf"

text \<open>
  Python dicts keep insertion order and the module iterates over two of them, so the
  manifest's dictionaries are association lists with distinct keys:
  \<open>map_of\<close> reads, \<open>AList.update\<close> is \<^verbatim>\<open>d[k] = v\<close>, and \<open>dict_pop\<close> is
  \<^verbatim>\<open>d.pop(k)\<close>.
\<close>

record manifest =
  nodes :: "(string \<times> parsed_node) list"
  macros :: "(string \<times> parsed_macro) list"
  docs :: "(string \<times> string) list"
  sources :: "(string \<times> entity) list"
  exposures :: "(string \<times> entity) list"
  files :: "(string \<times> addr) list"

definition empty_manifest :: manifest where
  "empty_manifest =
     \<lparr>nodes = [], macros = [], docs = [], sources = [], exposures = [], files = []\<rparr>"

record file_diff =
  deleted :: "string list"
  deleted_schema_files :: "string list"
  added :: "string list"
  changed :: "string list"
  changed_schema_files :: "string list"
  unchanged :: "string list"

text \<open>
  The state of a \<^verbatim>\<open>PartialParsing\<close> object. \<^verbatim>\<open>self.saved_files\<close> is the same dict
  object as \<^verbatim>\<open>self.saved_manifest.files\<close>, so it is not a field of its own.
\<close>

record pstate =
  saved_manifest :: manifest
  deleted_manifest :: manifest
  new_files :: "(string \<times> addr) list"
  project_parser_files :: "(string \<times> (string \<times> string list) list) list"
  file_diff :: file_diff
  heap :: "addr \<Rightarrow> source_file"

definition saved_files :: "pstate \<Rightarrow> (string \<times> addr) list" where
  "saved_files st = files (saved_manifest st)"

text \<open>
  A method either returns, with the state it leaves, or raises, with the state at the
  raise: nothing is rolled back.
\<close>

type_synonym 'a result = "error \<times> pstate + 'a \<times> pstate"
type_synonym effect = "error \<times> pstate + pstate"

fun for_each :: "('a \<Rightarrow> pstate \<Rightarrow> effect) \<Rightarrow> 'a list \<Rightarrow> pstate \<Rightarrow> effect" where
  "for_each body [] st = Inr st"
| "for_each body (x # xs) st = and_then (body x st) (for_each body xs)"

definition dict_pop :: "'k \<Rightarrow> ('k \<times> 'v) list \<Rightarrow> ('v \<times> ('k \<times> 'v) list) option" where
  "dict_pop k d = (case map_of d k of None \<Rightarrow> None | Some v \<Rightarrow> Some (v, AList.delete k d))"

definition has_key :: "('k \<times> 'v) list \<Rightarrow> 'k \<Rightarrow> bool" where
  "has_key d k = (map_of d k \<noteq> None)"

text \<open>\<^verbatim>\<open>unique_id.split('.')[-1]\<close>: what follows the last dot.\<close>

definition last_part :: "string \<Rightarrow> string" where
  "last_part s = rev (takeWhile (\<lambda>c. c \<noteq> CHR ''.'') (rev s))"

subsection \<open>Module constants\<close>

definition mssat_files :: "parse_file_type list" where
  "mssat_files = [Model, Seed, Snapshot, Analysis, Test]"

definition key_to_prefix :: "(string \<times> string) list" where
  "key_to_prefix =
     [(''models'', ''model''), (''seeds'', ''seed''), (''snapshots'', ''snapshot''),
      (''analyses'', ''analysis'')]"

definition parse_file_type_to_key :: "(parse_file_type \<times> string) list" where
  "parse_file_type_to_key =
     [(Model, ''models''), (Seed, ''seeds''), (Snapshot, ''snapshots''),
      (Analysis, ''analyses'')]"

text \<open>
  The table \<^verbatim>\<open>parse_file_type_to_parser\<close> is imported from a module outside the
  modelled sources; the functions take it as the parameter \<open>p2p\<close>.
\<close>

type_synonym parser_table = "parse_file_type \<Rightarrow> string option"

subsection \<open>Updates of single parts of the state\<close>

definition set_file :: "addr \<Rightarrow> source_file \<Rightarrow> pstate \<Rightarrow> pstate" where
  "set_file a sf st = st\<lparr>heap := (heap st)(a := sf)\<rparr>"

definition set_saved_file :: "string \<Rightarrow> addr \<Rightarrow> pstate \<Rightarrow> pstate" where
  "set_saved_file fid a st =
     st\<lparr>saved_manifest := (saved_manifest st)\<lparr>files := AList.update fid a (saved_files st)\<rparr>\<rparr>"

text \<open>
  \<^verbatim>\<open>self.deleted_manifest.files[file_id] = self.saved_manifest.files.pop(file_id)\<close>
\<close>

definition move_file :: "string \<Rightarrow> pstate \<Rightarrow> effect" where
  "move_file fid st =
     (case dict_pop fid (saved_files st) of
        None \<Rightarrow> Inl (KeyError, st)
      | Some (a, rest) \<Rightarrow>
          Inr (st\<lparr>saved_manifest := (saved_manifest st)\<lparr>files := rest\<rparr>,
                  deleted_manifest := (deleted_manifest st)
                    \<lparr>files := AList.update fid a (files (deleted_manifest st))\<rparr>\<rparr>))"

text \<open>
  \<^verbatim>\<open>node = self.saved_manifest.nodes.pop(unique_id)\<close> followed by
  \<^verbatim>\<open>self.deleted_manifest.nodes[unique_id] = node\<close>; the node is returned.
\<close>

definition move_node :: "string \<Rightarrow> pstate \<Rightarrow> parsed_node result" where
  "move_node unique_id st =
     (case dict_pop unique_id (nodes (saved_manifest st)) of
        None \<Rightarrow> Inl (KeyError, st)
      | Some (node, rest) \<Rightarrow>
          Inr (node,
               st\<lparr>saved_manifest := (saved_manifest st)\<lparr>nodes := rest\<rparr>,
                  deleted_manifest := (deleted_manifest st)
                    \<lparr>nodes := AList.update unique_id node (nodes (deleted_manifest st))\<rparr>\<rparr>))"

definition move_macro :: "string \<Rightarrow> pstate \<Rightarrow> parsed_macro result" where
  "move_macro unique_id st =
     (case dict_pop unique_id (macros (saved_manifest st)) of
        None \<Rightarrow> Inl (KeyError, st)
      | Some (macro, rest) \<Rightarrow>
          Inr (macro,
               st\<lparr>saved_manifest := (saved_manifest st)\<lparr>macros := rest\<rparr>,
                  deleted_manifest := (deleted_manifest st)
                    \<lparr>macros := AList.update unique_id macro (macros (deleted_manifest st))\<rparr>\<rparr>))"

text \<open>\<^verbatim>\<open>lst.remove(x)\<close> raises \<^verbatim>\<open>ValueError\<close> when \<open>x\<close> is not in the list.\<close>

definition list_remove :: "'a \<Rightarrow> 'a list \<Rightarrow> 'a list option" where
  "list_remove x xs = (if x \<in> set xs then Some (remove1 x xs) else None)"

subsection \<open>\<^verbatim>\<open>add_to_pp_files\<close>\<close>

definition pp_files_msg :: "string \<Rightarrow> string" where
  "pp_files_msg fid =
     ''Did not find parse_file_type or project_name in SourceFile for '' @ fid"

definition lookup_default :: "('k \<times> 'v) list \<Rightarrow> 'k \<Rightarrow> 'v \<Rightarrow> 'v" where
  "lookup_default d k dflt = (case map_of d k of None \<Rightarrow> dflt | Some v \<Rightarrow> v)"

definition add_to_pp_files :: "parser_table \<Rightarrow> addr \<Rightarrow> pstate \<Rightarrow> effect" where
  "add_to_pp_files p2p source_file st =
     (let sf = heap st source_file;
          fid = file_id sf
      in case p2p (parse_file_type sf) of
           None \<Rightarrow> Inl (KeyError, st)
         | Some parser_name \<Rightarrow>
             (let project = project_name sf in
              if parser_name = [] \<or> project = [] then
                Inl (PyException (pp_files_msg fid), st)
              else
                (let ppf = project_parser_files st;
                     ppf1 = (if \<not> has_key ppf project
                             then AList.update project [] ppf else ppf);
                     inner = lookup_default ppf1 project [];
                     inner1 = (if \<not> has_key inner parser_name
                               then AList.update parser_name [] inner else inner);
                     ids = lookup_default inner1 parser_name [];
                     inner2 = (if fid \<notin> set ids \<and> fid \<notin> set (deleted (file_diff st))
                               then AList.update parser_name (ids @ [fid]) inner1
                               else inner1)
                 in Inr (st\<lparr>project_parser_files := AList.update project inner2 ppf1\<rparr>))))"

subsection \<open>\<^verbatim>\<open>merge_patch\<close>\<close>

definition yaml_falsy :: "yaml_dict option \<Rightarrow> bool" where
  "yaml_falsy d =
     (case d of None \<Rightarrow> True | Some y \<Rightarrow> version y = None \<and> sections y = fmempty)"

text \<open>
  The loop \<^verbatim>\<open>for elem in pp_dict[key]: if elem['name'] == patch['name']: found = True\<close>.
\<close>

fun patch_found :: "element list \<Rightarrow> element \<Rightarrow> bool \<Rightarrow> error + bool" where
  "patch_found [] patch found = Inr found"
| "patch_found (elem # elems) patch found =
     (case fmlookup elem ''name'' of
        None \<Rightarrow> Inl KeyError
      | Some n \<Rightarrow>
          (case fmlookup patch ''name'' of
             None \<Rightarrow> Inl KeyError
           | Some pn \<Rightarrow> patch_found elems patch (if n = pn then True else found)))"

definition merge_patch :: "addr \<Rightarrow> string \<Rightarrow> element \<Rightarrow> pstate \<Rightarrow> effect" where
  "merge_patch schema_file key patch st =
     (if \<not> is_schema_source_file (heap st schema_file) then Inl (AttributeError, st)
      else
     and_then
       (if yaml_falsy (pp_dict (heap st schema_file)) then
          (case version (dict_from_yaml (heap st schema_file)) of
             None \<Rightarrow> Inl (KeyError, st)
           | Some v \<Rightarrow>
               Inr (set_file schema_file
                      ((heap st schema_file)
                         \<lparr>pp_dict := Some \<lparr>version = Some v, sections = fmempty\<rparr>\<rparr>) st))
        else Inr st)
       (\<lambda>st1.
          (case pp_dict (heap st1 schema_file) of
             None \<Rightarrow> Inl (TypeError, st1)
           | Some pp \<Rightarrow>
               (case fmlookup (sections pp) key of
                  None \<Rightarrow>
                    Inr (set_file schema_file
                           ((heap st1 schema_file)
                              \<lparr>pp_dict := Some (pp\<lparr>sections := fmupd key [patch] (sections pp)\<rparr>)\<rparr>)
                           st1)
                | Some elems \<Rightarrow>
                    (case patch_found elems patch False of
                       Inl e \<Rightarrow> Inl (e, st1)
                     | Inr found \<Rightarrow>
                         if \<not> found then
                           Inr (set_file schema_file
                                  ((heap st1 schema_file)
                                     \<lparr>pp_dict := Some (pp\<lparr>sections :=
                                        fmupd key (elems @ [patch]) (sections pp)\<rparr>)\<rparr>)
                                  st1)
                         else Inr st1)))))"

subsection \<open>\<^verbatim>\<open>get_tests_for\<close>\<close>

text \<open>
  The loop that builds \<^verbatim>\<open>pp_test_index\<close>: each test id of the schema file is filed
  under the last name segment of the first node its test node depends on.
\<close>

fun test_index_loop ::
  "(string \<times> parsed_node) list \<Rightarrow> string list \<Rightarrow> (string \<times> string list) list
     \<Rightarrow> error + (string \<times> string list) list" where
  "test_index_loop saved_nodes [] idx = Inr idx"
| "test_index_loop saved_nodes (test_unique_id # rest) idx =
     (case map_of saved_nodes test_unique_id of
        None \<Rightarrow> Inl KeyError
      | Some test_node \<Rightarrow>
          (case depends_on_nodes test_node of
             [] \<Rightarrow> Inl IndexError
           | tested_node_id # _ \<Rightarrow>
               (let elem_name = last_part tested_node_id in
                test_index_loop saved_nodes rest
                  (if has_key idx elem_name
                   then AList.update elem_name
                          (lookup_default idx elem_name [] @ [test_unique_id])
                          idx
                   else AList.update elem_name [test_unique_id] idx))))"

definition index_falsy :: "(string \<times> string list) list option \<Rightarrow> bool" where
  "index_falsy i = (case i of None \<Rightarrow> True | Some d \<Rightarrow> d = [])"

fun hashable :: "yval \<Rightarrow> bool" where
  "hashable (YList _) = False"
| "hashable (YDict _) = False"
| "hashable _ = True"

definition get_tests_for :: "addr \<Rightarrow> yval \<Rightarrow> pstate \<Rightarrow> string list result" where
  "get_tests_for schema_file name st =
     (if \<not> is_schema_source_file (heap st schema_file) then Inl (AttributeError, st)
      else
        and_then
          (if index_falsy (pp_test_index (heap st schema_file)) then
             (case test_index_loop (nodes (saved_manifest st)) (tests (heap st schema_file)) [] of
                Inl e \<Rightarrow> Inl (e, st)
              | Inr idx \<Rightarrow>
                  Inr (set_file schema_file
                         ((heap st schema_file)\<lparr>pp_test_index := Some idx\<rparr>) st))
           else Inr st)
          (\<lambda>st1.
             if \<not> hashable name then Inl (TypeError, st1)
             else
               (case (name, pp_test_index (heap st1 schema_file)) of
                  (YStr n, Some idx) \<Rightarrow> Inr (lookup_default idx n [], st1)
                | _ \<Rightarrow> Inr ([], st1))))"

subsection \<open>\<^verbatim>\<open>delete_schema_mssa_links\<close>\<close>

text \<open>
  The search of \<^verbatim>\<open>node_patches\<close> for the element's node id; the empty string when
  none is found.
\<close>

fun find_patch_id :: "string \<Rightarrow> element \<Rightarrow> string list \<Rightarrow> error + string" where
  "find_patch_id pfx elem [] = Inr ''''"
| "find_patch_id pfx elem (unique_id # rest) =
     (if \<not> prefix pfx unique_id then find_patch_id pfx elem rest
      else
        (case fmlookup elem ''name'' of
           None \<Rightarrow> Inl KeyError
         | Some n \<Rightarrow>
             if YStr (last_part unique_id) = n then Inr unique_id
             else find_patch_id pfx elem rest))"

text \<open>
  The block under \<^verbatim>\<open>if elem_unique_id in self.saved_manifest.nodes\<close>. A source file
  object is always true, so both \<^verbatim>\<open>if\<close>s of the block only read their dictionary.
\<close>

definition unlink_patched_node :: "parser_table \<Rightarrow> string \<Rightarrow> pstate \<Rightarrow> effect" where
  "unlink_patched_node p2p elem_unique_id st =
     and_then (move_node elem_unique_id st) (\<lambda>(node, st1).
       (let fid = node_file_id node in
        case map_of (new_files st1) fid of
          None \<Rightarrow> Inl (KeyError, st1)
        | Some new_file \<Rightarrow>
            (let st2 = set_saved_file fid new_file st1 in
             case map_of (saved_files st2) fid of
               None \<Rightarrow> Inl (KeyError, st2)
             | Some source_file \<Rightarrow> add_to_pp_files p2p source_file st2)))"

text \<open>The body of the loop over the tests of the element.\<close>

definition remove_test :: "addr \<Rightarrow> string \<Rightarrow> pstate \<Rightarrow> effect" where
  "remove_test schema_file test_unique_id st =
     and_then (move_node test_unique_id st) (\<lambda>(node, st1).
       (case list_remove test_unique_id (tests (heap st1 schema_file)) of
          None \<Rightarrow> Inl (ValueError, st1)
        | Some ts \<Rightarrow>
            Inr (set_file schema_file ((heap st1 schema_file)\<lparr>tests := ts\<rparr>) st1)))"

definition delete_schema_mssa_links ::
  "parser_table \<Rightarrow> addr \<Rightarrow> string \<Rightarrow> element \<Rightarrow> pstate \<Rightarrow> effect" where
  "delete_schema_mssa_links p2p schema_file dict_key elem st =
     (case map_of key_to_prefix dict_key of
        None \<Rightarrow> Inl (KeyError, st)
      | Some pfx \<Rightarrow>
          if \<not> is_schema_source_file (heap st schema_file) then Inl (AttributeError, st)
          else
            (case find_patch_id pfx elem (node_patches (heap st schema_file)) of
               Inl e \<Rightarrow> Inl (e, st)
             | Inr elem_unique_id \<Rightarrow>
                 and_then
                   (if elem_unique_id \<noteq> [] then
                      and_then
                        (if has_key (nodes (saved_manifest st)) elem_unique_id
                         then unlink_patched_node p2p elem_unique_id st
                         else Inr st)
                        (\<lambda>st3.
                           (case list_remove elem_unique_id
                                   (node_patches (heap st3 schema_file)) of
                              None \<Rightarrow> Inl (ValueError, st3)
                            | Some np \<Rightarrow>
                                Inr (set_file schema_file
                                       ((heap st3 schema_file)\<lparr>node_patches := np\<rparr>) st3)))
                    else Inr st)
                   (\<lambda>st4.
                      if dict_key \<in> set [''models'', ''seeds'', ''snapshots''] then
                        (case fmlookup elem ''name'' of
                           None \<Rightarrow> Inl (KeyError, st4)
                         | Some n \<Rightarrow>
                             and_then (get_tests_for schema_file n st4) (\<lambda>(test_ids, st5).
                               for_each (remove_test schema_file) test_ids st5))
                      else Inr st4)))"

subsection \<open>\<^verbatim>\<open>delete_node_in_saved\<close>\<close>

text \<open>
  The loop that looks for the element of the schema file named like the node; the
  local \<^verbatim>\<open>elem_patch\<close> stays unbound (\<open>None\<close>) when no element matches.
\<close>

fun find_elem_patch :: "element list \<Rightarrow> string \<Rightarrow> element option \<Rightarrow> error + element option" where
  "find_elem_patch [] name elem_patch = Inr elem_patch"
| "find_elem_patch (elem # elems) name elem_patch =
     (case fmlookup elem ''name'' of
        None \<Rightarrow> Inl KeyError
      | Some n \<Rightarrow> find_elem_patch elems name (if n = YStr name then Some elem else elem_patch))"

definition reapply_patch ::
  "parser_table \<Rightarrow> addr \<Rightarrow> string \<Rightarrow> element \<Rightarrow> string \<Rightarrow> pstate \<Rightarrow> effect" where
  "reapply_patch p2p schema_file dict_key elem_patch unique_id st =
     and_then (delete_schema_mssa_links p2p schema_file dict_key elem_patch st) (\<lambda>st2.
     and_then (merge_patch schema_file dict_key elem_patch st2) (\<lambda>st3.
     and_then (add_to_pp_files p2p schema_file st3) (\<lambda>st4.
       if unique_id \<in> set (node_patches (heap st4 schema_file)) then
         Inr (set_file schema_file
                ((heap st4 schema_file)
                   \<lparr>node_patches := remove1 unique_id (node_patches (heap st4 schema_file))\<rparr>)
                st4)
       else Inr st4)))"

definition delete_node_in_saved :: "parser_table \<Rightarrow> addr \<Rightarrow> string \<Rightarrow> pstate \<Rightarrow> effect" where
  "delete_node_in_saved p2p source_file unique_id st =
     and_then (move_node unique_id st) (\<lambda>(node, st1).
       (case patch_path node of
          None \<Rightarrow> Inr st1
        | Some fid \<Rightarrow>
            if fid = [] then Inr st1
            else if fid \<in> set (deleted (file_diff st1)) then Inr st1
            else
              (case map_of (saved_files st1) fid of
                 None \<Rightarrow> Inl (KeyError, st1)
               | Some schema_file \<Rightarrow>
                   (case map_of parse_file_type_to_key
                           (parse_file_type (heap st1 source_file)) of
                      None \<Rightarrow> Inl (KeyError, st1)
                    | Some dict_key \<Rightarrow>
                        if \<not> is_schema_source_file (heap st1 schema_file)
                        then Inl (AttributeError, st1)
                        else
                          (case fmlookup (sections (dict_from_yaml (heap st1 schema_file)))
                                  dict_key of
                             None \<Rightarrow> Inl (KeyError, st1)
                           | Some elems \<Rightarrow>
                               (case find_elem_patch elems (node_name node) None of
                                  Inl e \<Rightarrow> Inl (e, st1)
                                | Inr None \<Rightarrow> Inl (UnboundLocalError, st1)
                                | Inr (Some elem_patch) \<Rightarrow>
                                    if elem_patch = fmempty then Inr st1
                                    else reapply_patch p2p schema_file dict_key elem_patch
                                           unique_id st1))))))"

subsection \<open>Macro, documentation and SQL files\<close>

text \<open>
  The innermost statement of both scans of \<^verbatim>\<open>handle_macro_file_links\<close>: for one
  entry \<open>macro_unique_id\<close> of the \<^verbatim>\<open>depends_on.macros\<close> of a macro or node whose
  \<^verbatim>\<open>file_id()\<close> is \<open>dep_file_id\<close>.
\<close>

definition schedule_dependent ::
  "parser_table \<Rightarrow> string \<Rightarrow> string \<Rightarrow> string \<Rightarrow> pstate \<Rightarrow> effect" where
  "schedule_dependent p2p unique_id dep_file_id macro_unique_id st =
     (if macro_unique_id = unique_id \<and> has_key (macros (saved_manifest st)) macro_unique_id
      then
        (case map_of (saved_files st) dep_file_id of
           None \<Rightarrow> Inr st
         | Some source_file \<Rightarrow> add_to_pp_files p2p source_file st)
      else Inr st)"

definition macro_links_step :: "parser_table \<Rightarrow> string \<Rightarrow> pstate \<Rightarrow> effect" where
  "macro_links_step p2p unique_id st =
     and_then (move_macro unique_id st) (\<lambda>(popped, st1).
     and_then
       (for_each
          (\<lambda>macro. for_each (schedule_dependent p2p unique_id (macro_file_id macro))
                      (macro_depends_on_macros macro))
          (map snd (macros (saved_manifest st1))) st1) (\<lambda>st2.
       for_each
         (\<lambda>node. for_each (schedule_dependent p2p unique_id (node_file_id node))
                    (depends_on_macros node))
         (map snd (nodes (saved_manifest st2))) st2))"

definition handle_macro_file_links :: "parser_table \<Rightarrow> addr \<Rightarrow> pstate \<Rightarrow> effect" where
  "handle_macro_file_links p2p source_file st =
     (if is_schema_source_file (heap st source_file) then Inl (AttributeError, st)
      else for_each (macro_links_step p2p) (file_macros (heap st source_file)) st)"

definition delete_macro_file :: "parser_table \<Rightarrow> addr \<Rightarrow> pstate \<Rightarrow> effect" where
  "delete_macro_file p2p source_file st =
     and_then (handle_macro_file_links p2p source_file st) (\<lambda>st1.
       move_file (file_id (heap st1 source_file)) st1)"

definition move_doc :: "string \<Rightarrow> pstate \<Rightarrow> effect" where
  "move_doc unique_id st =
     (case dict_pop unique_id (docs (saved_manifest st)) of
        None \<Rightarrow> Inl (KeyError, st)
      | Some (doc, rest) \<Rightarrow>
          Inr (st\<lparr>saved_manifest := (saved_manifest st)\<lparr>docs := rest\<rparr>,
                  deleted_manifest := (deleted_manifest st)
                    \<lparr>docs := AList.update unique_id doc (docs (deleted_manifest st))\<rparr>\<rparr>))"

definition delete_doc_file :: "addr \<Rightarrow> pstate \<Rightarrow> effect" where
  "delete_doc_file source_file st =
     (if is_schema_source_file (heap st source_file) then Inl (AttributeError, st)
      else
        and_then (for_each move_doc (file_docs (heap st source_file)) st) (\<lambda>st1.
          move_file (file_id (heap st source_file)) st1))"

definition no_nodes_msg :: "string \<Rightarrow> string" where
  "no_nodes_msg fid = ''No nodes found for source file '' @ fid"

text \<open>
  In \<^verbatim>\<open>delete_mssat_file\<close> the loop body calls
  \<^verbatim>\<open>self.schedule_nodes_for_parsing\<close>, an attribute the class does not define: the
  call raises \<^verbatim>\<open>AttributeError\<close> once \<^verbatim>\<open>delete_node_in_saved\<close> has returned.
\<close>

definition delete_mssat_file :: "parser_table \<Rightarrow> addr \<Rightarrow> pstate \<Rightarrow> effect" where
  "delete_mssat_file p2p source_file st =
     (if is_schema_source_file (heap st source_file) then Inl (AttributeError, st)
      else if file_nodes (heap st source_file) = [] then
        Inl (PyException (no_nodes_msg (file_id (heap st source_file))), st)
      else
        for_each
          (\<lambda>unique_id st0.
             and_then (delete_node_in_saved p2p source_file unique_id st0) (\<lambda>st1.
               Inl (AttributeError, st1)))
          (file_nodes (heap st source_file)) st)"

definition delete_from_saved :: "parser_table \<Rightarrow> string \<Rightarrow> pstate \<Rightarrow> effect" where
  "delete_from_saved p2p fid st =
     (case map_of (saved_files st) fid of
        None \<Rightarrow> Inl (KeyError, st)
      | Some saved_source_file \<Rightarrow>
          and_then
            (if parse_file_type (heap st saved_source_file) \<in> set mssat_files
             then delete_mssat_file p2p saved_source_file st else Inr st) (\<lambda>st1.
          and_then
            (if parse_file_type (heap st1 saved_source_file) = Macro
             then delete_macro_file p2p saved_source_file st1 else Inr st1) (\<lambda>st2.
          and_then
            (if parse_file_type (heap st2 saved_source_file) = Documentation
             then delete_doc_file saved_source_file st2 else Inr st2) (\<lambda>st3.
            move_file fid st3))))"

definition update_mssat_in_saved :: "parser_table \<Rightarrow> addr \<Rightarrow> addr \<Rightarrow> pstate \<Rightarrow> effect" where
  "update_mssat_in_saved p2p new_source_file old_source_file st =
     (if is_schema_source_file (heap st old_source_file) then Inl (AttributeError, st)
      else
        (case file_nodes (heap st old_source_file) of
           [] \<Rightarrow> Inl (IndexError, st)
         | unique_id # _ \<Rightarrow>
             (let fid = file_id (heap st new_source_file);
                  st1 = st\<lparr>deleted_manifest := (deleted_manifest st)
                            \<lparr>files := AList.update fid old_source_file
                                        (files (deleted_manifest st))\<rparr>\<rparr>;
                  st2 = set_saved_file fid new_source_file st1
              in and_then (add_to_pp_files p2p new_source_file st2)
                   (delete_node_in_saved p2p new_source_file unique_id))))"

definition update_macro_in_saved :: "parser_table \<Rightarrow> addr \<Rightarrow> addr \<Rightarrow> pstate \<Rightarrow> effect" where
  "update_macro_in_saved p2p new_source_file old_source_file st =
     and_then (handle_macro_file_links p2p old_source_file st) (\<lambda>st1.
       add_to_pp_files p2p new_source_file
         (set_saved_file (file_id (heap st1 new_source_file)) new_source_file st1))"

definition update_doc_in_saved :: "parser_table \<Rightarrow> addr \<Rightarrow> addr \<Rightarrow> pstate \<Rightarrow> effect" where
  "update_doc_in_saved p2p new_source_file old_source_file st =
     add_to_pp_files p2p new_source_file
       (set_saved_file (file_id (heap st new_source_file)) new_source_file st)"

definition invalid_type_msg :: "string \<Rightarrow> string" where
  "invalid_type_msg fid = ''Invalid parse_file_type in source_file '' @ fid"

definition update_in_saved :: "parser_table \<Rightarrow> string \<Rightarrow> pstate \<Rightarrow> effect" where
  "update_in_saved p2p fid st =
     (case map_of (new_files st) fid of
        None \<Rightarrow> Inl (KeyError, st)
      | Some new_source_file \<Rightarrow>
          (case map_of (saved_files st) fid of
             None \<Rightarrow> Inl (KeyError, st)
           | Some old_source_file \<Rightarrow>
               if parse_file_type (heap st new_source_file) \<in> set mssat_files then
                 update_mssat_in_saved p2p new_source_file old_source_file st
               else if parse_file_type (heap st new_source_file) = Macro then
                 update_macro_in_saved p2p new_source_file old_source_file st
               else if parse_file_type (heap st new_source_file) = Documentation then
                 update_doc_in_saved p2p new_source_file old_source_file st
               else Inl (PyException (invalid_type_msg fid), st)))"

definition add_to_saved :: "parser_table \<Rightarrow> string \<Rightarrow> pstate \<Rightarrow> effect" where
  "add_to_saved p2p fid st =
     (case map_of (new_files st) fid of
        None \<Rightarrow> Inl (KeyError, st)
      | Some source_file \<Rightarrow>
          and_then
            (if parse_file_type (heap st source_file) = Schema then
               (if \<not> is_schema_source_file (heap st source_file) then Inl (AttributeError, st)
                else
                  Inr (set_file source_file
                         ((heap st source_file)
                            \<lparr>pp_dict := Some (dict_from_yaml (heap st source_file))\<rparr>) st))
             else Inr st) (\<lambda>st1.
            add_to_pp_files p2p source_file (set_saved_file fid source_file st1)))"

subsection \<open>\<^verbatim>\<open>get_diff_for\<close>\<close>

record key_diff =
  deleted_elements :: "element list"
  added_elements :: "element list"
  changed_elements :: "element list"

text \<open>
  The loop \<^verbatim>\<open>for element in elements: by_name[element['name']] = element\<close>.
\<close>

fun elements_by_name ::
  "element list \<Rightarrow> (yval \<times> element) list \<Rightarrow> error + (yval \<times> element) list" where
  "elements_by_name [] by_name = Inr by_name"
| "elements_by_name (e # es) by_name =
     (case fmlookup e ''name'' of
        None \<Rightarrow> Inl KeyError
      | Some n \<Rightarrow>
          if \<not> hashable n then Inl TypeError
          else elements_by_name es (AList.update n e by_name))"

text \<open>
  The three name sets are Python sets, whose iteration order is not specified; here
  each keeps the order of the dictionary it is taken from.
\<close>

definition get_diff_for :: "string \<Rightarrow> yaml_dict \<Rightarrow> yaml_dict \<Rightarrow> error + key_diff" where
  "get_diff_for key saved_yaml_dict new_yaml_dict =
     (if fmlookup (sections saved_yaml_dict) key \<noteq> None
         \<or> fmlookup (sections new_yaml_dict) key \<noteq> None then
        (let saved_elements =
               (case fmlookup (sections saved_yaml_dict) key of Some es \<Rightarrow> es | None \<Rightarrow> []);
             new_elements =
               (case fmlookup (sections new_yaml_dict) key of Some es \<Rightarrow> es | None \<Rightarrow> [])
         in
         and_then (elements_by_name saved_elements []) (\<lambda>saved_elements_by_name.
         and_then (elements_by_name new_elements []) (\<lambda>new_elements_by_name.
           (let saved_element_names = map fst saved_elements_by_name;
                new_element_names = map fst new_elements_by_name;
                deleted_names =
                  filter (\<lambda>n. n \<notin> set new_element_names) saved_element_names;
                added_names =
                  filter (\<lambda>n. n \<notin> set saved_element_names) new_element_names;
                common = filter (\<lambda>n. n \<in> set new_element_names) saved_element_names;
                changed_names =
                  filter (\<lambda>n. map_of saved_elements_by_name n \<noteq> map_of new_elements_by_name n)
                    common
            in Inr \<lparr>deleted_elements =
                       List.map_filter (map_of saved_elements_by_name) deleted_names,
                     added_elements =
                       List.map_filter (map_of new_elements_by_name) added_names,
                     changed_elements =
                       List.map_filter (map_of new_elements_by_name) changed_names\<rparr>))))
      else Inr \<lparr>deleted_elements = [], added_elements = [], changed_elements = []\<rparr>)"

subsection \<open>Sources, macro patches and exposures of a schema file\<close>

definition delete_source_step :: "yval \<Rightarrow> string \<Rightarrow> pstate \<Rightarrow> effect" where
  "delete_source_step name unique_id st =
     (case map_of (sources (saved_manifest st)) unique_id of
        None \<Rightarrow> Inr st
      | Some source \<Rightarrow>
          (case entity_source_name source of
             None \<Rightarrow> Inl (AttributeError, st)
           | Some sn \<Rightarrow>
               if YStr sn = name then
                 (case dict_pop unique_id (exposures (saved_manifest st)) of
                    None \<Rightarrow> Inl (KeyError, st)
                  | Some (popped, rest) \<Rightarrow>
                      Inr (st\<lparr>saved_manifest := (saved_manifest st)\<lparr>exposures := rest\<rparr>,
                              deleted_manifest := (deleted_manifest st)
                                \<lparr>sources := AList.update unique_id popped
                                               (sources (deleted_manifest st))\<rparr>\<rparr>))
               else Inr st))"

definition delete_schema_source :: "addr \<Rightarrow> element \<Rightarrow> pstate \<Rightarrow> effect" where
  "delete_schema_source schema_file source_dict st =
     (case fmlookup source_dict ''name'' of
        None \<Rightarrow> Inl (KeyError, st)
      | Some name \<Rightarrow>
          if \<not> is_schema_source_file (heap st schema_file) then Inl (AttributeError, st)
          else for_each (delete_source_step name) (file_sources (heap st schema_file)) st)"

text \<open>
  The search of \<^verbatim>\<open>macro_patches\<close>; the local \<^verbatim>\<open>macro_unique_id\<close> stays unbound
  (\<open>None\<close>) when the loop ends without a match.
\<close>

fun find_macro_patch :: "element \<Rightarrow> string list \<Rightarrow> error + string option" where
  "find_macro_patch macro [] = Inr None"
| "find_macro_patch macro (unique_id # rest) =
     (case fmlookup macro ''name'' of
        None \<Rightarrow> Inl KeyError
      | Some n \<Rightarrow>
          if YStr (last_part unique_id) = n then Inr (Some unique_id)
          else find_macro_patch macro rest)"

definition delete_schema_macro_patch ::
  "parser_table \<Rightarrow> addr \<Rightarrow> element \<Rightarrow> pstate \<Rightarrow> effect" where
  "delete_schema_macro_patch p2p schema_file macro st =
     (if \<not> is_schema_source_file (heap st schema_file) then Inl (AttributeError, st)
      else
        (case find_macro_patch macro (macro_patches (heap st schema_file)) of
           Inl e \<Rightarrow> Inl (e, st)
         | Inr None \<Rightarrow> Inl (UnboundLocalError, st)
         | Inr (Some macro_unique_id) \<Rightarrow>
             and_then
               (if macro_unique_id \<noteq> []
                   \<and> has_key (macros (saved_manifest st)) macro_unique_id then
                  and_then (move_macro macro_unique_id st) (\<lambda>(popped, st1).
                    (case map_of (saved_files st1) (macro_file_id popped) of
                       None \<Rightarrow> Inl (KeyError, st1)
                     | Some source_file \<Rightarrow> add_to_pp_files p2p source_file st1))
                else Inr st)
               (\<lambda>st2.
                  if macro_unique_id \<in> set (macro_patches (heap st2 schema_file)) then
                    Inr (set_file schema_file
                           ((heap st2 schema_file)
                              \<lparr>macro_patches :=
                                 remove1 macro_unique_id (macro_patches (heap st2 schema_file))\<rparr>)
                           st2)
                  else Inr st2)))"

definition delete_exposure_step :: "yval \<Rightarrow> string \<Rightarrow> pstate \<Rightarrow> effect" where
  "delete_exposure_step name unique_id st =
     (case map_of (exposures (saved_manifest st)) unique_id of
        None \<Rightarrow> Inl (KeyError, st)
      | Some exposure \<Rightarrow>
          if YStr (entity_name exposure) = name then
            (case dict_pop unique_id (exposures (saved_manifest st)) of
               None \<Rightarrow> Inl (KeyError, st)
             | Some (popped, rest) \<Rightarrow>
                 Inr (st\<lparr>saved_manifest := (saved_manifest st)\<lparr>exposures := rest\<rparr>,
                         deleted_manifest := (deleted_manifest st)
                           \<lparr>exposures := AList.update unique_id popped
                                            (exposures (deleted_manifest st))\<rparr>\<rparr>))
          else Inr st)"

definition delete_schema_exposure :: "addr \<Rightarrow> element \<Rightarrow> pstate \<Rightarrow> effect" where
  "delete_schema_exposure schema_file exposure_dict st =
     (case fmlookup exposure_dict ''name'' of
        None \<Rightarrow> Inl (KeyError, st)
      | Some name \<Rightarrow>
          if \<not> is_schema_source_file (heap st schema_file) then Inl (AttributeError, st)
          else for_each (delete_exposure_step name) (file_exposures (heap st schema_file)) st)"

subsection \<open>\<^verbatim>\<open>handle_schema_file_changes\<close>\<close>

text \<open>
  The loop over \<^verbatim>\<open>['models', 'seeds', 'snapshots', 'analyses']\<close>. Its three inner
  loops all bind the local \<^verbatim>\<open>elem\<close>, which the macros section reads later; the
  result carries the value \<^verbatim>\<open>elem\<close> has when the loop is left (\<open>None\<close>: never bound).
  The statement after \<^verbatim>\<open>merge_patch\<close> in the first inner loop, a test of the
  element's \<^verbatim>\<open>enabled\<close> entry over a comment, does nothing.
\<close>

definition last_bound :: "element option \<Rightarrow> element list \<Rightarrow> element option" where
  "last_bound elem_var elems = (if elems = [] then elem_var else Some (last elems))"

fun mssa_sections ::
  "parser_table \<Rightarrow> addr \<Rightarrow> yaml_dict \<Rightarrow> yaml_dict \<Rightarrow> string list \<Rightarrow> element option
     \<Rightarrow> pstate \<Rightarrow> element option result" where
  "mssa_sections p2p schema_file saved_yaml_dict new_yaml_dict [] elem_var st =
     Inr (elem_var, st)"
| "mssa_sections p2p schema_file saved_yaml_dict new_yaml_dict (dict_key # rest) elem_var st =
     (case get_diff_for dict_key saved_yaml_dict new_yaml_dict of
        Inl e \<Rightarrow> Inl (e, st)
      | Inr kd \<Rightarrow>
          and_then
            (for_each
               (\<lambda>elem st0.
                  and_then (delete_schema_mssa_links p2p schema_file dict_key elem st0)
                    (merge_patch schema_file dict_key elem))
               (changed_elements kd) st) (\<lambda>st1.
          and_then
            (for_each (delete_schema_mssa_links p2p schema_file dict_key)
               (deleted_elements kd) st1) (\<lambda>st2.
          and_then
            (for_each (merge_patch schema_file dict_key) (added_elements kd) st2) (\<lambda>st3.
            mssa_sections p2p schema_file saved_yaml_dict new_yaml_dict rest
              (last_bound elem_var
                 (changed_elements kd @ deleted_elements kd @ added_elements kd))
              st3))))"

definition override_msg :: "string \<Rightarrow> string \<Rightarrow> string" where
  "override_msg what fid =
     ''Partial parsing does not handle '' @ what @ '' source overrides: '' @ fid"

definition has_override :: "element \<Rightarrow> bool" where
  "has_override source = (fmlookup source ''override'' \<noteq> None)"

text \<open>The bodies of the three loops of the sources section.\<close>

definition source_changed :: "addr \<Rightarrow> element \<Rightarrow> pstate \<Rightarrow> effect" where
  "source_changed schema_file source st =
     (if has_override source then
        Inl (PyException (override_msg ''changed'' (file_id (heap st schema_file))), st)
      else
        and_then (delete_schema_source schema_file source st)
          (merge_patch schema_file ''sources'' source))"

definition source_deleted :: "addr \<Rightarrow> element \<Rightarrow> pstate \<Rightarrow> effect" where
  "source_deleted schema_file source st =
     (if has_override source then
        Inl (PyException (override_msg ''deleted'' (file_id (heap st schema_file))), st)
      else delete_schema_source schema_file source st)"

definition source_added :: "addr \<Rightarrow> element \<Rightarrow> pstate \<Rightarrow> effect" where
  "source_added schema_file source st =
     (if has_override source then
        Inl (PyException (override_msg ''new'' (file_id (heap st schema_file))), st)
      else merge_patch schema_file ''sources'' source st)"

definition sources_section :: "addr \<Rightarrow> yaml_dict \<Rightarrow> yaml_dict \<Rightarrow> pstate \<Rightarrow> effect" where
  "sources_section schema_file saved_yaml_dict new_yaml_dict st =
     (case get_diff_for ''sources'' saved_yaml_dict new_yaml_dict of
        Inl e \<Rightarrow> Inl (e, st)
      | Inr source_diff \<Rightarrow>
          and_then (for_each (source_changed schema_file) (changed_elements source_diff) st)
            (\<lambda>st1.
          and_then (for_each (source_deleted schema_file) (deleted_elements source_diff) st1)
            (\<lambda>st2.
            for_each (source_added schema_file) (added_elements source_diff) st2)))"

text \<open>
  In the macros section the loop over the changed macros merges \<^verbatim>\<open>elem\<close>, the
  variable left over from the loops before, not the macro at hand.
\<close>

definition macros_section ::
  "parser_table \<Rightarrow> addr \<Rightarrow> yaml_dict \<Rightarrow> yaml_dict \<Rightarrow> element option \<Rightarrow> pstate \<Rightarrow> effect" where
  "macros_section p2p schema_file saved_yaml_dict new_yaml_dict elem_var st =
     (case get_diff_for ''macros'' saved_yaml_dict new_yaml_dict of
        Inl e \<Rightarrow> Inl (e, st)
      | Inr macro_diff \<Rightarrow>
          and_then
            (for_each
               (\<lambda>macro st0.
                  and_then (delete_schema_macro_patch p2p schema_file macro st0) (\<lambda>st1.
                    (case elem_var of
                       None \<Rightarrow> Inl (UnboundLocalError, st1)
                     | Some elem \<Rightarrow> merge_patch schema_file ''macros'' elem st1)))
               (changed_elements macro_diff) st) (\<lambda>st2.
          and_then
            (for_each (delete_schema_macro_patch p2p schema_file)
               (deleted_elements macro_diff) st2) (\<lambda>st3.
            for_each (merge_patch schema_file ''macros'') (added_elements macro_diff) st3)))"

definition exposures_section :: "addr \<Rightarrow> yaml_dict \<Rightarrow> yaml_dict \<Rightarrow> pstate \<Rightarrow> effect" where
  "exposures_section schema_file saved_yaml_dict new_yaml_dict st =
     (case get_diff_for ''exposures'' saved_yaml_dict new_yaml_dict of
        Inl e \<Rightarrow> Inl (e, st)
      | Inr exposure_diff \<Rightarrow>
          and_then
            (for_each
               (\<lambda>exposure st0.
                  and_then (delete_schema_exposure schema_file exposure st0)
                    (merge_patch schema_file ''exposures'' exposure))
               (changed_elements exposure_diff) st) (\<lambda>st1.
          and_then
            (for_each (delete_schema_exposure schema_file)
               (deleted_elements exposure_diff) st1) (\<lambda>st2.
            for_each (merge_patch schema_file ''exposures'')
              (added_elements exposure_diff) st2)))"

definition handle_schema_file_changes ::
  "parser_table \<Rightarrow> addr \<Rightarrow> yaml_dict \<Rightarrow> yaml_dict \<Rightarrow> pstate \<Rightarrow> effect" where
  "handle_schema_file_changes p2p schema_file saved_yaml_dict new_yaml_dict st =
     and_then
       (mssa_sections p2p schema_file saved_yaml_dict new_yaml_dict
          [''models'', ''seeds'', ''snapshots'', ''analyses''] None st) (\<lambda>(elem_var, st1).
     and_then (sources_section schema_file saved_yaml_dict new_yaml_dict st1) (\<lambda>st2.
     and_then (macros_section p2p schema_file saved_yaml_dict new_yaml_dict elem_var st2)
       (exposures_section schema_file saved_yaml_dict new_yaml_dict)))"

definition change_schema_file :: "parser_table \<Rightarrow> string \<Rightarrow> pstate \<Rightarrow> effect" where
  "change_schema_file p2p fid st =
     (case map_of (saved_files st) fid of
        None \<Rightarrow> Inl (KeyError, st)
      | Some saved_schema_file \<Rightarrow>
          (case map_of (new_files st) fid of
             None \<Rightarrow> Inl (KeyError, st)
           | Some new_schema_file \<Rightarrow>
               if \<not> is_schema_source_file (heap st saved_schema_file)
                  \<or> \<not> is_schema_source_file (heap st new_schema_file)
               then Inl (AttributeError, st)
               else
                 (let saved_yaml_dict = dict_from_yaml (heap st saved_schema_file);
                      new_yaml_dict = dict_from_yaml (heap st new_schema_file)
                  in case version saved_yaml_dict of
                       None \<Rightarrow> Inl (KeyError, st)
                     | Some v \<Rightarrow>
                         and_then
                           (handle_schema_file_changes p2p saved_schema_file
                              saved_yaml_dict new_yaml_dict
                              (set_file saved_schema_file
                                 ((heap st saved_schema_file)
                                    \<lparr>pp_dict := Some \<lparr>version = Some v, sections = fmempty\<rparr>\<rparr>)
                                 st)) (\<lambda>st2.
                           add_to_pp_files p2p saved_schema_file
                             (set_file saved_schema_file
                                ((heap st2 saved_schema_file)
                                   \<lparr>contents := contents (heap st2 new_schema_file),
                                    checksum := checksum (heap st2 new_schema_file),
                                    dfy := dfy (heap st2 new_schema_file)\<rparr>)
                                st2)))))"

definition delete_schema_file :: "parser_table \<Rightarrow> string \<Rightarrow> pstate \<Rightarrow> effect" where
  "delete_schema_file p2p fid st =
     (case map_of (saved_files st) fid of
        None \<Rightarrow> Inl (KeyError, st)
      | Some saved_schema_file \<Rightarrow>
          if \<not> is_schema_source_file (heap st saved_schema_file) then Inl (AttributeError, st)
          else
            and_then
              (handle_schema_file_changes p2p saved_schema_file
                 (dict_from_yaml (heap st saved_schema_file)) empty_yaml st)
              (move_file fid))"

subsection \<open>\<^verbatim>\<open>skip_parsing\<close> and \<^verbatim>\<open>get_parsing_files\<close>\<close>

definition skip_parsing :: "pstate \<Rightarrow> bool" where
  "skip_parsing st =
     (deleted (file_diff st) = []
      \<and> added (file_diff st) = []
      \<and> changed (file_diff st) = []
      \<and> changed_schema_files (file_diff st) = []
      \<and> deleted_schema_files (file_diff st) = [])"

definition get_parsing_files ::
  "parser_table \<Rightarrow> pstate \<Rightarrow> (string \<times> (string \<times> string list) list) list result" where
  "get_parsing_files p2p st =
     (if skip_parsing st then Inr ([], st)
      else
        and_then (for_each (add_to_saved p2p) (added (file_diff st)) st) (\<lambda>st1.
        and_then (for_each (change_schema_file p2p) (changed_schema_files (file_diff st1)) st1)
          (\<lambda>st2.
        and_then (for_each (delete_schema_file p2p) (deleted_schema_files (file_diff st2)) st2)
          (\<lambda>st3.
        and_then (for_each (delete_from_saved p2p) (deleted (file_diff st3)) st3) (\<lambda>st4.
        and_then (for_each (update_in_saved p2p) (changed (file_diff st4)) st4) (\<lambda>st5.
          Inr (project_parser_files st5, st5)))))))"

subsection \<open>\<^verbatim>\<open>build_file_diff\<close> and the constructor\<close>

definition serialization_msg :: "string \<Rightarrow> string" where
  "serialization_msg fid = ''Serialization failure for '' @ fid"

text \<open>
  The two loops of \<^verbatim>\<open>build_file_diff\<close>. They run over Python sets; here the ids
  come in the order of the saved files.
\<close>

fun diff_deleted ::
  "pstate \<Rightarrow> string list \<Rightarrow> string list \<times> string list \<Rightarrow> error + string list \<times> string list" where
  "diff_deleted st [] acc = Inr acc"
| "diff_deleted st (fid # rest) (del_schema, del) =
     (case map_of (saved_files st) fid of
        None \<Rightarrow> Inl KeyError
      | Some a \<Rightarrow>
          if parse_file_type (heap st a) = Schema
          then diff_deleted st rest (del_schema @ [fid], del)
          else diff_deleted st rest (del_schema, del @ [fid]))"

fun diff_common ::
  "pstate \<Rightarrow> string list \<Rightarrow> string list \<times> string list \<times> string list
     \<Rightarrow> error + string list \<times> string list \<times> string list" where
  "diff_common st [] acc = Inr acc"
| "diff_common st (fid # rest) (chg, chg_schema, unchg) =
     (case (map_of (saved_files st) fid, map_of (new_files st) fid) of
        (Some a, Some b) \<Rightarrow>
          if checksum (heap st a) = checksum (heap st b)
          then diff_common st rest (chg, chg_schema, unchg @ [fid])
          else if parse_file_type (heap st a) = Schema then
            (if \<not> is_schema_source_file (heap st a)
             then Inl (PyException (serialization_msg fid))
             else diff_common st rest (chg, chg_schema @ [fid], unchg))
          else diff_common st rest (chg @ [fid], chg_schema, unchg)
      | _ \<Rightarrow> Inl KeyError)"

definition build_file_diff :: "pstate \<Rightarrow> effect" where
  "build_file_diff st =
     (let saved_file_ids = map fst (saved_files st);
          new_file_ids = map fst (new_files st);
          deleted_all_files = filter (\<lambda>f. f \<notin> set new_file_ids) saved_file_ids;
          added_files = filter (\<lambda>f. f \<notin> set saved_file_ids) new_file_ids;
          common = filter (\<lambda>f. f \<in> set new_file_ids) saved_file_ids
      in case diff_deleted st deleted_all_files ([], []) of
           Inl e \<Rightarrow> Inl (e, st)
         | Inr (del_schema, del) \<Rightarrow>
             (case diff_common st common ([], [], []) of
                Inl e \<Rightarrow> Inl (e, st)
              | Inr (chg, chg_schema, unchg) \<Rightarrow>
                  Inr (st\<lparr>file_diff :=
                            \<lparr>deleted = del, deleted_schema_files = del_schema,
                             added = added_files, changed = chg,
                             changed_schema_files = chg_schema, unchanged = unchg\<rparr>\<rparr>)))"

text \<open>
  \<^verbatim>\<open>PartialParsing(saved_manifest, new_files)\<close>, on a store \<open>h\<close> of source files.
\<close>

definition init :: "manifest \<Rightarrow> (string \<times> addr) list \<Rightarrow> (addr \<Rightarrow> source_file) \<Rightarrow> effect" where
  "init saved new h =
     build_file_diff
       \<lparr>saved_manifest = saved, deleted_manifest = empty_manifest, new_files = new,
        project_parser_files = [],
        file_diff = \<lparr>deleted = [], deleted_schema_files = [], added = [], changed = [],
                     changed_schema_files = [], unchanged = []\<rparr>,
        heap = h\<rparr>"

subsection \<open>An example project\<close>

text \<open>
  A parser table, and a saved manifest with one model \<^verbatim>\<open>m3\<close> patched and tested
  by a schema file, a source, and two macro files of which \<^verbatim>\<open>b\<close> calls \<^verbatim>\<open>a\<close>;
  the model also calls macro \<^verbatim>\<open>a\<close>. The store holds the model's file at address
  2 and its new version at 12, the schema file at 3, the macro files at 4 and 5, and
  at 6 a file that names no project.
\<close>

definition example_parsers :: parser_table where
  "example_parsers t =
     (case t of
        Macro \<Rightarrow> Some ''MacroParser''
      | Model \<Rightarrow> Some ''ModelParser''
      | Snapshot \<Rightarrow> Some ''SnapshotParser''
      | Analysis \<Rightarrow> Some ''AnalysisParser''
      | Test \<Rightarrow> Some ''DataTestParser''
      | Seed \<Rightarrow> Some ''SeedParser''
      | Documentation \<Rightarrow> Some ''DocumentationParser''
      | Schema \<Rightarrow> Some ''SchemaParser'')"

definition blank_file :: source_file where
  "blank_file =
     \<lparr>file_id = '''', parse_file_type = Model, project_name = ''test'', checksum = '''',
      contents = '''', is_schema_source_file = False, file_nodes = [], file_macros = [],
      file_docs = [], dfy = empty_yaml, pp_dict = None, pp_test_index = None, tests = [],
      file_sources = [], file_exposures = [], node_patches = [], macro_patches = []\<rparr>"

definition m3_elem :: element where
  "m3_elem = fmap_of_list [(''name'', YStr ''m3''), (''description'', YStr ''The third model'')]"

definition raw_elem :: element where
  "raw_elem = fmap_of_list [(''name'', YStr ''raw'')]"

definition other_elem :: element where
  "other_elem = fmap_of_list [(''name'', YStr ''other'')]"

definition override_elem :: element where
  "override_elem = fmap_of_list [(''name'', YStr ''raw''), (''override'', YStr ''pkg'')]"

definition example_schema_file :: source_file where
  "example_schema_file =
     blank_file
       \<lparr>file_id := ''test://schema.yml'', parse_file_type := Schema,
        is_schema_source_file := True,
        dfy := \<lparr>version = Some (YInt 2),
                 sections = fmap_of_list [(''models'', [m3_elem]), (''sources'', [raw_elem])]\<rparr>,
        tests := [''test.test.unique_m3'', ''test.test.not_null_m3''],
        file_sources := [''source.test.raw.customers''],
        node_patches := [''model.test.m3'']\<rparr>"

definition example_heap :: "addr \<Rightarrow> source_file" where
  "example_heap a =
     (if a = 2 then blank_file\<lparr>file_id := ''test://m3.sql'', file_nodes := [''model.test.m3'']\<rparr>
      else if a = 3 then example_schema_file
      else if a = 4 then
        blank_file\<lparr>file_id := ''test://a.sql'', parse_file_type := Macro,
                   file_macros := [''macro.test.a'']\<rparr>
      else if a = 5 then
        blank_file\<lparr>file_id := ''test://b.sql'', parse_file_type := Macro,
                   file_macros := [''macro.test.b'']\<rparr>
      else if a = 12 then
        blank_file\<lparr>file_id := ''test://m3.sql'', checksum := ''new'',
                   file_nodes := [''model.test.m3'']\<rparr>
      else if a = 6 then blank_file\<lparr>file_id := ''test://orphan.sql'', project_name := ''''\<rparr>
      else blank_file)"

definition macro_a :: parsed_macro where
  "macro_a = \<lparr>macro_file_id = ''test://a.sql'', macro_depends_on_macros = []\<rparr>"

definition macro_b :: parsed_macro where
  "macro_b = \<lparr>macro_file_id = ''test://b.sql'', macro_depends_on_macros = [''macro.test.a'']\<rparr>"

definition example_saved :: manifest where
  "example_saved =
     \<lparr>nodes =
        [(''model.test.m3'',
          \<lparr>node_name = ''m3'', node_file_id = ''test://m3.sql'',
           patch_path = Some ''test://schema.yml'', depends_on_macros = [''macro.test.a''],
           depends_on_nodes = []\<rparr>),
         (''test.test.unique_m3'',
          \<lparr>node_name = ''unique_m3'', node_file_id = ''test://schema.yml'',
           patch_path = None, depends_on_macros = [],
           depends_on_nodes = [''model.test.m3'']\<rparr>),
         (''test.test.not_null_m3'',
          \<lparr>node_name = ''not_null_m3'', node_file_id = ''test://schema.yml'',
           patch_path = None, depends_on_macros = [],
           depends_on_nodes = [''model.test.m3'']\<rparr>)],
      macros = [(''macro.test.a'', macro_a), (''macro.test.b'', macro_b)],
      docs = [],
      sources =
        [(''source.test.raw.customers'',
          SourceDef \<lparr>source_name = ''raw'', table_name = ''customers''\<rparr>)],
      exposures = [],
      files =
        [(''test://m3.sql'', 2), (''test://schema.yml'', 3), (''test://a.sql'', 4),
         (''test://b.sql'', 5)]\<rparr>"

definition example_state :: pstate where
  "example_state =
     \<lparr>saved_manifest = example_saved, deleted_manifest = empty_manifest,
      new_files =
        [(''test://m3.sql'', 12), (''test://schema.yml'', 3), (''test://a.sql'', 4),
         (''test://b.sql'', 5)],
      project_parser_files = [],
      file_diff =
        \<lparr>deleted = [], deleted_schema_files = [], added = [], changed = [''test://m3.sql''],
         changed_schema_files = [],
         unchanged = [''test://schema.yml'', ''test://a.sql'', ''test://b.sql'']\<rparr>,
      heap = example_heap\<rparr>"

text \<open>The same project when no file has changed.\<close>

definition quiet_state :: pstate where
  "quiet_state =
     example_state
       \<lparr>file_diff :=
          \<lparr>deleted = [], deleted_schema_files = [], added = [], changed = [],
           changed_schema_files = [],
           unchanged = [''test://m3.sql'', ''test://schema.yml'', ''test://a.sql'',
                        ''test://b.sql'']\<rparr>\<rparr>"

text \<open>The example project after the macro file \<^verbatim>\<open>a.sql\<close> (address 4) is unlinked.\<close>

definition after_macro_removal :: pstate where
  "after_macro_removal =
     example_state
       \<lparr>saved_manifest := example_saved\<lparr>macros := [(''macro.test.b'', macro_b)]\<rparr>,
        deleted_manifest := empty_manifest\<lparr>macros := [(''macro.test.a'', macro_a)]\<rparr>\<rparr>"

subsection \<open>Notions used to state the properties\<close>

text \<open>
  The elements queued in a schema file's pending patch under a section key; the
  elements of a list that carry a given name, and the last of them; the list a
  document has under a section key (empty when the key is absent).
\<close>

definition queued :: "source_file \<Rightarrow> string \<Rightarrow> element list" where
  "queued sf key =
     (case pp_dict sf of
        None \<Rightarrow> []
      | Some pp \<Rightarrow> (case fmlookup (sections pp) key of None \<Rightarrow> [] | Some es \<Rightarrow> es))"

definition named :: "yval \<Rightarrow> element list \<Rightarrow> element list" where
  "named n es = filter (\<lambda>e. fmlookup e ''name'' = Some n) es"

definition last_named :: "yval \<Rightarrow> element list \<Rightarrow> element option" where
  "last_named n es = (case named n es of [] \<Rightarrow> None | x # xs \<Rightarrow> Some (last (x # xs)))"

definition section_of :: "yaml_dict \<Rightarrow> string \<Rightarrow> element list" where
  "section_of y key = (case fmlookup (sections y) key of Some es \<Rightarrow> es | None \<Rightarrow> [])"

text \<open>The example project after \<^verbatim>\<open>m3\<close>'s element is merged into the pending patch.\<close>

definition merged_state :: pstate where
  "merged_state =
     set_file 3
       (example_schema_file
          \<lparr>pp_dict := Some \<lparr>version = Some (YInt 2),
                             sections = fmupd ''models'' [m3_elem] fmempty\<rparr>\<rparr>)
       example_state"

text \<open>Two versions of a schema document whose \<^verbatim>\<open>models\<close> lists repeat a name.\<close>

definition a1_elem :: element where
  "a1_elem = fmap_of_list [(''name'', YStr ''a''), (''description'', YStr ''first'')]"

definition a2_elem :: element where
  "a2_elem = fmap_of_list [(''name'', YStr ''a''), (''description'', YStr ''second'')]"

definition b_elem :: element where
  "b_elem = fmap_of_list [(''name'', YStr ''b'')]"

definition c1_elem :: element where
  "c1_elem = fmap_of_list [(''name'', YStr ''c''), (''description'', YStr ''first'')]"

definition c2_elem :: element where
  "c2_elem = fmap_of_list [(''name'', YStr ''c''), (''description'', YStr ''second'')]"

definition dup_saved :: yaml_dict where
  "dup_saved =
     \<lparr>version = Some (YInt 2),
      sections = fmap_of_list [(''models'', [a1_elem, a2_elem, b_elem])]\<rparr>"

definition dup_new :: yaml_dict where
  "dup_new =
     \<lparr>version = Some (YInt 2),
      sections = fmap_of_list [(''models'', [a2_elem, c1_elem, c2_elem])]\<rparr>"

definition dup_diff :: key_diff where
  "dup_diff =
     \<lparr>deleted_elements = [b_elem], added_elements = [c2_elem], changed_elements = []\<rparr>"

text \<open>
  The list the schedule holds for a sub-project and a parser (empty when there is
  none), and the invariant of the schedule: no list has a duplicate or a file id of
  the \<^verbatim>\<open>deleted\<close> bucket. \<open>outcome\<close> is the state a call leaves, whether it returns
  or raises; \<open>sched_inv fd\<close> adds to the invariant that the file diff is \<open>fd\<close>.
\<close>

definition sched_list ::
  "(string \<times> (string \<times> string list) list) list \<Rightarrow> string \<Rightarrow> string \<Rightarrow> string list" where
  "sched_list ppf project parser = lookup_default (lookup_default ppf project []) parser []"

definition schedule_ok :: "pstate \<Rightarrow> bool" where
  "schedule_ok st =
     (\<forall>project parser.
        distinct (sched_list (project_parser_files st) project parser)
        \<and> set (sched_list (project_parser_files st) project parser)
            \<inter> set (deleted (file_diff st)) = {})"

definition outcome :: "('a \<Rightarrow> pstate) \<Rightarrow> error \<times> pstate + 'a \<Rightarrow> pstate" where
  "outcome proj r = (case r of Inl (e, s) \<Rightarrow> s | Inr v \<Rightarrow> proj v)"

definition sched_inv :: "file_diff \<Rightarrow> pstate \<Rightarrow> bool" where
  "sched_inv fd s = (file_diff s = fd \<and> schedule_ok s)"

definition state_after :: "effect \<Rightarrow> pstate" where
  "state_after r = outcome (\<lambda>s. s) r"

text \<open>
  The test ids of a schema file that \<^verbatim>\<open>get_tests_for\<close> files under an element name:
  those whose test node has a first dependency with that last name segment.
\<close>

definition tests_for :: "(string \<times> parsed_node) list \<Rightarrow> string \<Rightarrow> string list \<Rightarrow> string list" where
  "tests_for saved_nodes name test_ids =
     filter
       (\<lambda>t. case map_of saved_nodes t of
               None \<Rightarrow> False
             | Some n \<Rightarrow> (case depends_on_nodes n of [] \<Rightarrow> False | d # ds \<Rightarrow> last_part d = name))
       test_ids"

text \<open>The example project with the macro file \<^verbatim>\<open>a.sql\<close> marked as deleted.\<close>

definition deleting_state :: pstate where
  "deleting_state =
     example_state
       \<lparr>file_diff := (file_diff example_state)\<lparr>deleted := [''test://a.sql'']\<rparr>\<rparr>"

section \<open>Properties of the static extractor\<close>

lemma find_all_Call_unfold: "find_all_Call n = concat (map visit_Call (iter_child_nodes n))"
  unfolding visit_Call_def by (subst find_all_Call.simps) (rule refl)

lemma find_all_Call_simps:
  "find_all_Call (Name n) = []"
  "find_all_Call (Const v) = []"
  "find_all_Call (Getattr f a) = visit_Call f"
  "find_all_Call (Call f as ks da dk) =
     concat (map visit_Call (f # as @ map snd ks @ opt_list da @ opt_list dk))"
  "find_all_Call (JList xs) = concat (map visit_Call xs)"
  "find_all_Call (Add l r) = visit_Call l @ visit_Call r"
  "find_all_Call (Other xs) = concat (map visit_Call xs)"
  by (simp_all add: find_all_Call_unfold [of "Name n"] find_all_Call_unfold [of "Const v"]
        find_all_Call_unfold [of "Getattr f a"] find_all_Call_unfold [of "Call f as ks da dk"]
        find_all_Call_unfold [of "JList xs"] find_all_Call_unfold [of "Add l r"]
        find_all_Call_unfold [of "Other xs"])

lemma extract_loop_append:
  "extract_loop (xs @ ys) c w acc
   = and_then (extract_loop xs c w acc) (\<lambda>acc'. extract_loop ys c w acc')"
proof (induction xs arbitrary: acc)
  case Nil
  show ?case by (simp add: and_then_def)
next
  case (Cons x xs)
  show ?case
    by (simp add: Cons.IH and_then_def split: option.splits sum.splits)
qed

subsection \<open>Dispatch through a resolver\<close>

lemma find_all_Call_dispatch_template: "find_all_Call dispatch_template = [dispatch_call]"
  by (simp add: dispatch_template_def dispatch_call_def find_all_Call_simps visit_Call_def)

lemma parse_dispatch_call:
  assumes "d (Some ''current_timestamp'') (Some [''dbt_utils''])
           = Inr \<lparr>package_name = ''dbt_utils'', macro_name = ''default__current_timestamp''\<rparr>"
  shows "statically_parse_adapter_dispatch dispatch_call c (Some d)
         = Inr [''current_timestamp'', ''dbt_utils.default__current_timestamp'']"
  using assms
  by (simp add: statically_parse_adapter_dispatch_def dispatch_call_def and_then_def
        dispatch_packages_def)

text \<open>
  Claim C2, as the code has it. For a template whose only call is
  \<^verbatim>\<open>adapter.dispatch('current_timestamp', packages=['dbt_utils'])\<close>, and a resolver
  that maps \<^verbatim>\<open>('current_timestamp', ['dbt_utils'])\<close> to the macro
  \<^verbatim>\<open>default__current_timestamp\<close> of package \<^verbatim>\<open>dbt_utils\<close>, extraction returns
  two references, in this order: the bare macro name \<^verbatim>\<open>current_timestamp\<close> taken
  from the first positional argument, then the resolved id
  \<^verbatim>\<open>dbt_utils.default__current_timestamp\<close>.
\<close>

theorem C2_dispatch_with_resolver:
  assumes "find_all_Call parsed = [dispatch_call]"
    and "d (Some ''current_timestamp'') (Some [''dbt_utils''])
           = Inr \<lparr>package_name = ''dbt_utils'', macro_name = ''default__current_timestamp''\<rparr>"
  shows "statically_extract_macro_calls parsed c (Some d)
         = Inr [''current_timestamp'', ''dbt_utils.default__current_timestamp'']"
proof -
  have "attr_node dispatch_call = Some (Getattr (Name ''adapter'') ''dispatch'')"
    by (simp add: dispatch_call_def)
  then show ?thesis
    using assms(1) parse_dispatch_call [of d c] assms(2)
    by (simp add: statically_extract_macro_calls_def and_then_def record_call_def)
qed

text \<open>
  Witness for C2: the template \<open>dispatch_template\<close> and the resolver
  \<open>utils_resolver\<close> satisfy both hypotheses.
\<close>

theorem C2_dispatch_with_resolver_witness:
  "find_all_Call dispatch_template = [dispatch_call]
   \<and> utils_resolver (Some ''current_timestamp'') (Some [''dbt_utils''])
       = Inr \<lparr>package_name = ''dbt_utils'', macro_name = ''default__current_timestamp''\<rparr>
   \<and> statically_extract_macro_calls dispatch_template empty_ctx (Some utils_resolver)
       = Inr [''current_timestamp'', ''dbt_utils.default__current_timestamp'']"
  using C2_dispatch_with_resolver [of dispatch_template utils_resolver empty_ctx]
    find_all_Call_dispatch_template
  by (simp add: utils_resolver_def)

text \<open>
  Counterexample to C2 as stated: on that template and resolver the result is not the
  one-element collection holding only \<^verbatim>\<open>dbt_utils.default__current_timestamp\<close>.
\<close>

theorem C2_single_reference_counterexample:
  "statically_extract_macro_calls dispatch_template empty_ctx (Some utils_resolver)
   \<noteq> Inr [''dbt_utils.default__current_timestamp'']"
  by (simp add: statically_extract_macro_calls_def find_all_Call_dispatch_template
        dispatch_call_def and_then_def record_call_def statically_parse_adapter_dispatch_def
        dispatch_packages_def utils_resolver_def)

subsection \<open>Custom macros in the packages argument\<close>

lemma parse_custom_dispatch_call:
  assumes "\<not> (prefix ''_get'' attr \<and> sublist ''namespaces'' attr)"
  shows "statically_parse_adapter_dispatch
           (custom_dispatch_call fn (Call (Getattr (Name ns) attr) as ks da dk)) c w
         = Inl (CompilationException (custom_macro_msg attr))"
proof -
  have "(if prefix ''_get'' attr \<and> sublist ''namespaces'' attr then x else y) = y"
    for x y :: "error + string list"
    using assms by auto
  then show ?thesis
    by (simp add: statically_parse_adapter_dispatch_def custom_dispatch_call_def and_then_def
        dispatch_packages_def)
qed

lemma find_all_Call_custom_template:
  "find_all_Call
     (custom_template (Call (Getattr (Name ''my_pkg'') ''some_custom_macro'') [] [] None None))
   = [] @ custom_dispatch_call ''foo''
            (Call (Getattr (Name ''my_pkg'') ''some_custom_macro'') [] [] None None)
     # [Call (Getattr (Name ''my_pkg'') ''some_custom_macro'') [] [] None None]"
  by (simp add: custom_template_def custom_dispatch_call_def find_all_Call_simps visit_Call_def)

text \<open>
  Claim C5, as the code has it. Let a template contain
  \<^verbatim>\<open>adapter.dispatch(fn, packages=ns.attr(...))\<close>: the packages argument is a call
  whose callee is the attribute \<open>attr\<close> of a simple name \<open>ns\<close>. If \<open>attr\<close> does
  not both start with \<^verbatim>\<open>_get\<close> and contain \<^verbatim>\<open>namespaces\<close>, and the calls
  before it in the template are extracted without error, then extraction fails with
  the compiler error whose message names \<open>attr\<close>. This holds with and without a
  resolver.
\<close>

theorem C5_custom_macro_rejected:
  assumes "find_all_Call parsed
           = pre @ custom_dispatch_call fn (Call (Getattr (Name ns) attr) as ks da dk) # rest"
    and "extract_loop pre c w [] = Inr acc"
    and "\<not> (prefix ''_get'' attr \<and> sublist ''namespaces'' attr)"
  shows "statically_extract_macro_calls parsed c w
         = Inl (CompilationException (custom_macro_msg attr))"
  using assms(1,2) parse_custom_dispatch_call [OF assms(3), of fn ns as ks da dk c w]
  by (simp add: statically_extract_macro_calls_def extract_loop_append and_then_def
        custom_dispatch_call_def)

text \<open>
  Witness for C5: \<^verbatim>\<open>adapter.dispatch('foo', packages=my_pkg.some_custom_macro())\<close>.
\<close>

theorem C5_custom_macro_rejected_witness:
  "\<not> (prefix ''_get'' ''some_custom_macro'' \<and> sublist ''namespaces'' ''some_custom_macro'')
   \<and> extract_loop [] empty_ctx None [] = Inr []
   \<and> statically_extract_macro_calls
       (custom_template
          (Call (Getattr (Name ''my_pkg'') ''some_custom_macro'') [] [] None None))
       empty_ctx None
     = Inl (CompilationException (custom_macro_msg ''some_custom_macro''))"
proof -
  have a: "\<not> (prefix ''_get'' ''some_custom_macro''
              \<and> sublist ''namespaces'' ''some_custom_macro'')"
    by simp
  have b: "extract_loop [] empty_ctx None [] = Inr []"
    by simp
  show ?thesis
    using C5_custom_macro_rejected [OF find_all_Call_custom_template b a] a by simp
qed

text \<open>
  Counterexample to C5 as stated: for the template
  \<^verbatim>\<open>adapter.dispatch('foo', packages=some_custom_macro())\<close>, where the call in the
  packages position has a bare name as callee, extraction raises nothing and returns
  \<^verbatim>\<open>foo\<close> and \<^verbatim>\<open>some_custom_macro\<close>; and for
  \<^verbatim>\<open>adapter.dispatch('foo', packages=a.b.some_custom_macro())\<close>, whose attribute name
  does not match the pattern but hangs off another attribute, it returns \<^verbatim>\<open>foo\<close>.
\<close>

theorem C5_bare_call_counterexample:
  "statically_extract_macro_calls
     (custom_template (Call (Name ''some_custom_macro'') [] [] None None)) empty_ctx None
   = Inr [''foo'', ''some_custom_macro'']
   \<and> statically_extract_macro_calls
       (custom_template
          (Call (Getattr (Getattr (Name ''a'') ''b'') ''some_custom_macro'') [] [] None None))
       empty_ctx None
     = Inr [''foo'']"
  by (simp add: statically_extract_macro_calls_def custom_template_def custom_dispatch_call_def
        find_all_Call_simps visit_Call_def and_then_def record_call_def
        statically_parse_adapter_dispatch_def dispatch_packages_def empty_ctx_def
        standard_calls_def)

section \<open>Properties of partial parsing\<close>

lemma and_then_simps [simp]:
  "and_then (Inr v) k = k v"
  "and_then (Inl e) k = Inl e"
  by (simp_all add: and_then_def)

lemma for_each_append:
  "for_each body (xs @ ys) st = and_then (for_each body xs st) (for_each body ys)"
  by (induction xs arbitrary: st) (auto simp: and_then_def split: sum.splits)

lemma for_each_frame:
  assumes "\<And>x s s'. body x s = Inr s' \<Longrightarrow> f s' = f s"
  shows "for_each body xs st = Inr st' \<Longrightarrow> f st' = f st"
proof (induction xs arbitrary: st)
  case Nil
  then show ?case by simp
next
  case (Cons x xs)
  show ?case
  proof (cases "body x st")
    case (Inl e)
    with Cons.prems show ?thesis by simp
  next
    case (Inr s)
    with Cons.prems have "for_each body xs s = Inr st'" by simp
    then have "f st' = f s" by (rule Cons.IH)
    also have "f s = f st" using Inr by (rule assms)
    finally show ?thesis .
  qed
qed

subsection \<open>The fast path\<close>

text \<open>
  Claim C1. \<^verbatim>\<open>skip_parsing()\<close> is true exactly when the five buckets
  \<^verbatim>\<open>deleted\<close>, \<^verbatim>\<open>added\<close>, \<^verbatim>\<open>changed\<close>, \<^verbatim>\<open>changed_schema_files\<close> and
  \<^verbatim>\<open>deleted_schema_files\<close> are all empty; and when it is true,
  \<^verbatim>\<open>get_parsing_files\<close> returns the empty schedule and leaves the whole state, so
  every mapping of the saved manifest, as it was.
\<close>

theorem C1_fast_path:
  "(skip_parsing st \<longleftrightarrow>
      deleted (file_diff st) = [] \<and> added (file_diff st) = [] \<and> changed (file_diff st) = []
      \<and> changed_schema_files (file_diff st) = [] \<and> deleted_schema_files (file_diff st) = [])
   \<and> (skip_parsing st \<longrightarrow> get_parsing_files p2p st = Inr ([], st))"
  by (auto simp: skip_parsing_def get_parsing_files_def)

text \<open>Witness for C1: the example project with no changed file.\<close>

theorem C1_fast_path_witness:
  "skip_parsing quiet_state
   \<and> get_parsing_files example_parsers quiet_state = Inr ([], quiet_state)"
proof -
  have "skip_parsing quiet_state"
    by (simp add: skip_parsing_def quiet_state_def)
  then show ?thesis
    using C1_fast_path [of quiet_state example_parsers] by simp
qed

subsection \<open>Source overrides\<close>

text \<open>
  Claim C6. In each of the three loops of the sources section (over the changed, the
  deleted and the added sources), when the elements before a source that has an
  \<^verbatim>\<open>override\<close> key have been processed without error, the loop raises the
  source-override exception for that source, and the state at the raise is the state
  those earlier elements left: nothing is unlinked or merged for the source itself.
\<close>

theorem C6_override_rejected:
  assumes "has_override src"
  shows "(for_each (source_changed sf) pre_c st = Inr st_c \<longrightarrow>
            for_each (source_changed sf) (pre_c @ src # post) st
            = Inl (PyException (override_msg ''changed'' (file_id (heap st_c sf))), st_c))
       \<and> (for_each (source_deleted sf) pre_d st = Inr st_d \<longrightarrow>
            for_each (source_deleted sf) (pre_d @ src # post) st
            = Inl (PyException (override_msg ''deleted'' (file_id (heap st_d sf))), st_d))
       \<and> (for_each (source_added sf) pre_a st = Inr st_a \<longrightarrow>
            for_each (source_added sf) (pre_a @ src # post) st
            = Inl (PyException (override_msg ''new'' (file_id (heap st_a sf))), st_a))"
  using assms
  by (simp add: for_each_append source_changed_def source_deleted_def source_added_def)

text \<open>
  Witness for C6: the schema file of the example project, a source with an
  \<^verbatim>\<open>override\<close> key, first in the changed and deleted lists and second, behind a
  source that is merged, in the added list.
\<close>

theorem C6_override_rejected_witness:
  "has_override override_elem
   \<and> for_each (source_changed 3) ([] @ override_elem # [raw_elem]) example_state
     = Inl (PyException (override_msg ''changed'' ''test://schema.yml''), example_state)
   \<and> for_each (source_deleted 3) ([] @ override_elem # [raw_elem]) example_state
     = Inl (PyException (override_msg ''deleted'' ''test://schema.yml''), example_state)
   \<and> for_each (source_added 3) [other_elem] example_state
     = Inr (set_file 3
              (example_schema_file
                 \<lparr>pp_dict := Some \<lparr>version = Some (YInt 2),
                                    sections = fmupd ''sources'' [other_elem] fmempty\<rparr>\<rparr>)
              example_state)
   \<and> for_each (source_added 3) ([other_elem] @ override_elem # [raw_elem]) example_state
     = Inl (PyException (override_msg ''new'' ''test://schema.yml''),
            set_file 3
              (example_schema_file
                 \<lparr>pp_dict := Some \<lparr>version = Some (YInt 2),
                                    sections = fmupd ''sources'' [other_elem] fmempty\<rparr>\<rparr>)
              example_state)"
proof -
  let ?st = "set_file 3
              (example_schema_file
                 \<lparr>pp_dict := Some \<lparr>version = Some (YInt 2),
                                    sections = fmupd ''sources'' [other_elem] fmempty\<rparr>\<rparr>)
              example_state"
  have ov: "has_override override_elem"
    by (simp add: has_override_def override_elem_def)
  have fid: "file_id (heap example_state 3) = ''test://schema.yml''"
    "file_id (heap ?st 3) = ''test://schema.yml''"
    by (simp_all add: example_state_def example_heap_def example_schema_file_def blank_file_def
        set_file_def)
  have added: "for_each (source_added 3) [other_elem] example_state = Inr ?st"
    by (simp add: source_added_def has_override_def other_elem_def merge_patch_def
        example_state_def example_heap_def example_schema_file_def blank_file_def
        yaml_falsy_def dict_from_yaml_def set_file_def)
  have nil: "for_each (source_changed 3) [] example_state = Inr example_state"
    "for_each (source_deleted 3) [] example_state = Inr example_state"
    by simp_all
  show ?thesis
    using C6_override_rejected [OF ov, of 3 "[]" example_state example_state "[raw_elem]"
        "[]" example_state "[other_elem]" ?st]
      ov fid added nil
    by simp
qed

subsection \<open>Removing a macro file\<close>

lemma schedule_dependent_popped:
  "\<not> has_key (macros (saved_manifest st)) unique_id \<Longrightarrow>
   for_each (schedule_dependent p2p unique_id dep) ids st = Inr st"
  by (induction ids) (auto simp: schedule_dependent_def)

lemma scan_popped:
  "\<not> has_key (macros (saved_manifest st)) unique_id \<Longrightarrow>
   for_each (\<lambda>x. for_each (schedule_dependent p2p unique_id (f x)) (g x)) xs st = Inr st"
  by (induction xs) (simp_all add: schedule_dependent_popped)

lemma has_key_delete: "\<not> has_key (AList.delete k d) k"
  by (simp add: has_key_def delete_conv')

lemma macro_links_step_schedule:
  "macro_links_step p2p unique_id st = Inr st' \<Longrightarrow>
   project_parser_files st' = project_parser_files st"
  unfolding macro_links_step_def move_macro_def dict_pop_def
  by (auto simp: scan_popped has_key_delete split: option.splits)

text \<open>
  Whatever the macro file and the manifest, \<^verbatim>\<open>handle_macro_file_links\<close> returns with
  the schedule it found: the test \<^verbatim>\<open>macro_unique_id in self.saved_manifest.macros\<close>
  is made after the macro was popped from that dictionary, so it never holds.
\<close>

lemma handle_macro_file_links_schedule:
  "handle_macro_file_links p2p sf st = Inr st' \<Longrightarrow>
   project_parser_files st' = project_parser_files st"
  unfolding handle_macro_file_links_def
  using for_each_frame [of "macro_links_step p2p" project_parser_files]
    macro_links_step_schedule
  by (auto split: if_splits)

text \<open>
  Claim C3, evaluated on the example project. Unlinking the macro file \<^verbatim>\<open>a.sql\<close>
  moves macro \<^verbatim>\<open>macro.test.a\<close> from the saved to the removed manifest. Macro
  \<^verbatim>\<open>macro.test.b\<close> and node \<^verbatim>\<open>model.test.m3\<close> stay in the saved manifest, both
  depend on the removed macro and both have their file among the saved files, and yet
  the schedule is empty afterwards: neither owning file is scheduled.
\<close>

theorem C3_dependents_not_scheduled:
  "handle_macro_file_links example_parsers 4 example_state = Inr after_macro_removal
   \<and> map_of (macros (saved_manifest after_macro_removal)) ''macro.test.a'' = None
   \<and> map_of (macros (deleted_manifest after_macro_removal)) ''macro.test.a'' = Some macro_a
   \<and> map_of (macros (saved_manifest after_macro_removal)) ''macro.test.b'' = Some macro_b
   \<and> ''macro.test.a'' \<in> set (macro_depends_on_macros macro_b)
   \<and> map_of (saved_files after_macro_removal) (macro_file_id macro_b) = Some 5
   \<and> project_parser_files after_macro_removal = []"
  by (simp add: handle_macro_file_links_def example_state_def example_heap_def blank_file_def
      macro_links_step_def move_macro_def dict_pop_def example_saved_def AList.delete_eq
      schedule_dependent_def has_key_def empty_manifest_def after_macro_removal_def
      macro_a_def macro_b_def saved_files_def)

subsection \<open>Deleting a source\<close>

text \<open>
  Claim C9, evaluated on the example project. The schema file records the source
  \<^verbatim>\<open>source.test.raw.customers\<close>, whose declared source name is \<^verbatim>\<open>raw\<close>. Deleting
  the source element named \<^verbatim>\<open>raw\<close> pops the id from the exposures mapping, where
  it is not, and raises \<^verbatim>\<open>KeyError\<close>; the state is unchanged, and the source is
  still in the saved manifest's sources mapping.
\<close>

theorem C9_source_not_removed:
  "delete_schema_source 3 raw_elem example_state = Inl (KeyError, example_state)
   \<and> map_of (sources (saved_manifest example_state)) ''source.test.raw.customers''
     = Some (SourceDef \<lparr>source_name = ''raw'', table_name = ''customers''\<rparr>)"
  by (simp add: delete_schema_source_def raw_elem_def example_state_def example_heap_def
      example_schema_file_def blank_file_def example_saved_def delete_source_step_def
      dict_pop_def)

subsection \<open>Merging into the pending patch\<close>

lemma patch_found_append:
  "patch_found (xs @ ys) p b = and_then (patch_found xs p b) (patch_found ys p)"
  by (induction xs arbitrary: b) (auto split: option.splits)

lemma patch_found_named:
  "patch_found es p b = Inr found \<Longrightarrow> fmlookup p ''name'' = Some n \<Longrightarrow>
   found = (b \<or> named n es \<noteq> [])"
  by (induction es arbitrary: b) (auto simp: named_def split: option.splits if_splits)

lemma fmupd_not_empty: "fmupd k v m \<noteq> fmempty"
proof
  assume "fmupd k v m = fmempty"
  then have "fmlookup (fmupd k v m) k = fmlookup fmempty k" by simp
  then show False by simp
qed

lemma merge_patch_cases:
  assumes "merge_patch sf key patch st = Inr st1"
  obtains
    (seed) v where "is_schema_source_file (heap st sf)" "yaml_falsy (pp_dict (heap st sf))"
      "version (dict_from_yaml (heap st sf)) = Some v"
      "st1 = set_file sf ((heap st sf)\<lparr>pp_dict :=
               Some \<lparr>version = Some v, sections = fmupd key [patch] fmempty\<rparr>\<rparr>) st"
  | (fresh_key) pp where "is_schema_source_file (heap st sf)"
      "\<not> yaml_falsy (pp_dict (heap st sf))" "pp_dict (heap st sf) = Some pp"
      "fmlookup (sections pp) key = None"
      "st1 = set_file sf ((heap st sf)\<lparr>pp_dict :=
               Some (pp\<lparr>sections := fmupd key [patch] (sections pp)\<rparr>)\<rparr>) st"
  | (found) pp elems where "is_schema_source_file (heap st sf)"
      "\<not> yaml_falsy (pp_dict (heap st sf))" "pp_dict (heap st sf) = Some pp"
      "fmlookup (sections pp) key = Some elems" "patch_found elems patch False = Inr True"
      "st1 = st"
  | (appended) pp elems where "is_schema_source_file (heap st sf)"
      "\<not> yaml_falsy (pp_dict (heap st sf))" "pp_dict (heap st sf) = Some pp"
      "fmlookup (sections pp) key = Some elems" "patch_found elems patch False = Inr False"
      "st1 = set_file sf ((heap st sf)\<lparr>pp_dict :=
               Some (pp\<lparr>sections := fmupd key (elems @ [patch]) (sections pp)\<rparr>)\<rparr>) st"
proof (cases "yaml_falsy (pp_dict (heap st sf))")
  case True
  with assms seed show ?thesis
    by (auto simp: merge_patch_def set_file_def split: if_splits option.splits)
next
  case False
  with assms fresh_key found appended show ?thesis
    by (auto simp: merge_patch_def set_file_def yaml_falsy_def
        split: if_splits option.splits sum.splits)
qed

lemma merge_patch_again:
  assumes "is_schema_source_file (heap st sf)" "pp_dict (heap st sf) = Some pp"
    "fmlookup (sections pp) key = Some es" "patch_found es patch False = Inr True"
  shows "merge_patch sf key patch st = Inr st"
  using assms fmupd_not_empty
  by (auto simp: merge_patch_def yaml_falsy_def)

text \<open>
  Claim C8. Let the element have a name, let a first \<^verbatim>\<open>merge_patch\<close> of it into
  a section of a schema file's pending patch return, and let the section have held at
  most one element of that name before (as every section that \<^verbatim>\<open>merge_patch\<close>
  itself has built does). Then a second \<^verbatim>\<open>merge_patch\<close> of the same element returns
  and changes nothing, the section holds exactly one element of that name, and if the
  pending patch was unset or empty before the first call it now consists of the
  document's \<^verbatim>\<open>version\<close> entry and the section with this one element.
\<close>

theorem C8_merge_idempotent:
  assumes name: "fmlookup patch ''name'' = Some n"
    and first: "merge_patch sf key patch st = Inr st1"
    and one: "length (named n (queued (heap st sf) key)) \<le> 1"
  shows "merge_patch sf key patch st1 = Inr st1
       \<and> length (named n (queued (heap st1 sf) key)) = 1
       \<and> (yaml_falsy (pp_dict (heap st sf)) \<longrightarrow>
            pp_dict (heap st1 sf)
            = Some \<lparr>version = version (dict_from_yaml (heap st sf)),
                    sections = fmupd key [patch] fmempty\<rparr>)"
  using first
proof (cases rule: merge_patch_cases)
  case (seed v)
  have pf: "patch_found [patch] patch False = Inr True" using name by simp
  have a: "is_schema_source_file (heap st1 sf)"
    and b: "pp_dict (heap st1 sf)
            = Some \<lparr>version = Some v, sections = fmupd key [patch] fmempty\<rparr>"
    using seed by (simp_all add: set_file_def)
  have c: "fmlookup (sections \<lparr>version = Some v, sections = fmupd key [patch] fmempty\<rparr>) key
           = Some [patch]"
    by simp
  have "merge_patch sf key patch st1 = Inr st1"
    by (rule merge_patch_again [OF a b c pf])
  then show ?thesis using seed name b
    by (simp add: queued_def named_def)
next
  case (fresh_key pp)
  have pf: "patch_found [patch] patch False = Inr True" using name by simp
  have a: "is_schema_source_file (heap st1 sf)"
    and b: "pp_dict (heap st1 sf) = Some (pp\<lparr>sections := fmupd key [patch] (sections pp)\<rparr>)"
    using fresh_key by (simp_all add: set_file_def)
  have c: "fmlookup (sections (pp\<lparr>sections := fmupd key [patch] (sections pp)\<rparr>)) key
           = Some [patch]"
    by simp
  have "merge_patch sf key patch st1 = Inr st1"
    by (rule merge_patch_again [OF a b c pf])
  then show ?thesis using fresh_key name b
    by (simp add: queued_def named_def)
next
  case (found pp elems)
  have "merge_patch sf key patch st1 = Inr st1"
    using found by (simp add: merge_patch_again [of st sf pp key elems patch])
  moreover have "named n elems \<noteq> []"
    using patch_found_named [OF found(5) name] by simp
  ultimately show ?thesis using found one
    by (cases "named n elems") (simp_all add: queued_def)
next
  case (appended pp elems)
  have pf: "patch_found (elems @ [patch]) patch False = Inr True"
    using appended(5) name by (simp add: patch_found_append)
  have a: "is_schema_source_file (heap st1 sf)"
    and b: "pp_dict (heap st1 sf)
            = Some (pp\<lparr>sections := fmupd key (elems @ [patch]) (sections pp)\<rparr>)"
    using appended by (simp_all add: set_file_def)
  have c: "fmlookup (sections (pp\<lparr>sections := fmupd key (elems @ [patch]) (sections pp)\<rparr>)) key
           = Some (elems @ [patch])"
    by simp
  have "merge_patch sf key patch st1 = Inr st1"
    by (rule merge_patch_again [OF a b c pf])
  moreover have "named n elems = []"
    using patch_found_named [OF appended(5) name] by simp
  ultimately show ?thesis using appended name b
    by (simp add: queued_def named_def)
qed

text \<open>
  Witness for C8: the element of model \<^verbatim>\<open>m3\<close> merged twice into the schema file
  of the example project, whose pending patch is unset.
\<close>

theorem C8_merge_idempotent_witness:
  "fmlookup m3_elem ''name'' = Some (YStr ''m3'')
   \<and> merge_patch 3 ''models'' m3_elem example_state = Inr merged_state
   \<and> length (named (YStr ''m3'') (queued (heap example_state 3) ''models'')) \<le> 1
   \<and> merge_patch 3 ''models'' m3_elem merged_state = Inr merged_state
   \<and> length (named (YStr ''m3'') (queued (heap merged_state 3) ''models'')) = 1
   \<and> pp_dict (heap merged_state 3)
     = Some \<lparr>version = Some (YInt 2), sections = fmupd ''models'' [m3_elem] fmempty\<rparr>"
proof -
  have name: "fmlookup m3_elem ''name'' = Some (YStr ''m3'')"
    by (simp add: m3_elem_def)
  have first: "merge_patch 3 ''models'' m3_elem example_state = Inr merged_state"
    by (simp add: merge_patch_def example_state_def example_heap_def example_schema_file_def
        blank_file_def yaml_falsy_def dict_from_yaml_def set_file_def merged_state_def)
  have one: "length (named (YStr ''m3'') (queued (heap example_state 3) ''models'')) \<le> 1"
    by (simp add: queued_def example_state_def example_heap_def example_schema_file_def
        blank_file_def named_def)
  have falsy: "yaml_falsy (pp_dict (heap example_state 3))"
    by (simp add: yaml_falsy_def example_state_def example_heap_def example_schema_file_def
        blank_file_def)
  have v: "version (dict_from_yaml (heap example_state 3)) = Some (YInt 2)"
    by (simp add: dict_from_yaml_def example_state_def example_heap_def
        example_schema_file_def blank_file_def)
  show ?thesis
    using C8_merge_idempotent [OF name first one] name first one falsy v by simp
qed

subsection \<open>Repeated names in a section\<close>

lemma last_named_Cons:
  "last_named n (e # es) =
     (case last_named n es of
        Some x \<Rightarrow> Some x
      | None \<Rightarrow> if fmlookup e ''name'' = Some n then Some e else None)"
  by (auto simp: last_named_def named_def split: list.splits)

lemma elements_by_name_lookup:
  "elements_by_name es acc = Inr d \<Longrightarrow>
   map_of d n = (case last_named n es of Some e \<Rightarrow> Some e | None \<Rightarrow> map_of acc n)"
proof (induction es arbitrary: acc)
  case Nil
  then show ?case by (simp add: last_named_def named_def)
next
  case (Cons e es)
  from Cons.prems obtain m where m: "fmlookup e ''name'' = Some m"
    and rest: "elements_by_name es (AList.update m e acc) = Inr d"
    by (auto split: option.splits if_splits)
  show ?case
    using Cons.IH [OF rest] m
    by (auto simp: last_named_Cons update_conv' split: option.splits)
qed

lemma set_map_filter_eq: "set (List.map_filter f xs) = {y. \<exists>x \<in> set xs. f x = Some y}"
  by (induction xs) (auto split: option.splits)

lemma in_keys_iff: "n \<in> set (map fst d) \<longleftrightarrow> map_of d n \<noteq> None"
  by (simp add: map_of_eq_None_iff)

lemma set_map_filter_keys:
  "set (List.map_filter (map_of d) (filter P (map fst d)))
   = {e. \<exists>n. map_of d n = Some e \<and> P n}"
proof -
  have "n \<in> set (map fst d)" if "map_of d n = Some e" for n e
    using that in_keys_iff [of n d] by simp
  then show ?thesis
    unfolding set_map_filter_eq by (simp only: set_filter) blast
qed

text \<open>
  Claim C10. When \<^verbatim>\<open>get_diff_for\<close> returns, its three lists are determined by the
  last element of each name in the saved and in the new section list: the deleted
  elements are the last saved elements of the names that the new list lacks, the added
  elements are the last new elements of the names that the saved list lacks, and the
  changed elements are the last new elements of the names whose last saved element
  differs. Elements that a later element of the same name follows play no part.
\<close>

theorem C10_last_duplicate_wins:
  assumes "get_diff_for key saved new = Inr kd"
  shows "set (deleted_elements kd)
           = {e. \<exists>n. last_named n (section_of saved key) = Some e
                    \<and> last_named n (section_of new key) = None}
       \<and> set (added_elements kd)
           = {e. \<exists>n. last_named n (section_of new key) = Some e
                    \<and> last_named n (section_of saved key) = None}
       \<and> set (changed_elements kd)
           = {e. \<exists>n e0. last_named n (section_of new key) = Some e
                       \<and> last_named n (section_of saved key) = Some e0 \<and> e0 \<noteq> e}"
proof (cases "fmlookup (sections saved) key \<noteq> None \<or> fmlookup (sections new) key \<noteq> None")
  case False
  with assms have "kd = \<lparr>deleted_elements = [], added_elements = [], changed_elements = []\<rparr>"
    by (auto simp: get_diff_for_def)
  moreover from False have "section_of saved key = []" "section_of new key = []"
    by (auto simp: section_of_def)
  ultimately show ?thesis by (simp add: last_named_def named_def)
next
  case True
  with assms obtain sb nb where
    sb: "elements_by_name (section_of saved key) [] = Inr sb" and
    nb: "elements_by_name (section_of new key) [] = Inr nb" and
    kd: "kd = \<lparr>deleted_elements =
                  List.map_filter (map_of sb) (filter (\<lambda>n. n \<notin> set (map fst nb)) (map fst sb)),
               added_elements =
                  List.map_filter (map_of nb) (filter (\<lambda>n. n \<notin> set (map fst sb)) (map fst nb)),
               changed_elements =
                  List.map_filter (map_of nb)
                    (filter (\<lambda>n. map_of sb n \<noteq> map_of nb n)
                       (filter (\<lambda>n. n \<in> set (map fst nb)) (map fst sb)))\<rparr>"
    unfolding get_diff_for_def section_of_def Let_def
    by (auto simp: and_then_def split: sum.splits if_splits)
  have s: "map_of sb n = last_named n (section_of saved key)" for n
    using elements_by_name_lookup [OF sb, of n] by (simp split: option.splits)
  have n: "map_of nb n = last_named n (section_of new key)" for n
    using elements_by_name_lookup [OF nb, of n] by (simp split: option.splits)
  have "filter (\<lambda>n. map_of sb n \<noteq> map_of nb n)
          (filter (\<lambda>n. n \<in> set (map fst nb)) (map fst sb))
        = filter (\<lambda>n. map_of nb n \<noteq> None \<and> map_of sb n \<noteq> map_of nb n) (map fst sb)"
    using in_keys_iff [of _ nb] by (simp add: conj_commute del: set_map)
  then have chg: "set (changed_elements kd)
      = {e. \<exists>m. m \<in> set (map fst sb) \<and> map_of nb m \<noteq> None
                \<and> map_of sb m \<noteq> map_of nb m \<and> map_of nb m = Some e}"
    unfolding kd by (simp add: set_map_filter_eq)
  have del: "set (deleted_elements kd)
      = {e. \<exists>m. map_of sb m = Some e \<and> map_of nb m = None}"
    unfolding kd by (simp add: set_map_filter_keys in_keys_iff del: set_map)
  have add: "set (added_elements kd)
      = {e. \<exists>m. map_of nb m = Some e \<and> map_of sb m = None}"
    unfolding kd by (simp add: set_map_filter_keys in_keys_iff del: set_map)
  have chg': "set (changed_elements kd)
      = {e. \<exists>m e0. map_of nb m = Some e \<and> map_of sb m = Some e0 \<and> e0 \<noteq> e}"
    unfolding chg in_keys_iff by auto
  show ?thesis
    unfolding del add chg' s n by simp
qed

lemma dup_eval: "get_diff_for ''models'' dup_saved dup_new = Inr dup_diff"
  by (simp add: get_diff_for_def dup_saved_def dup_new_def dup_diff_def
      a1_elem_def a2_elem_def b_elem_def c1_elem_def c2_elem_def)

text \<open>
  Witness for C10: the saved list has two elements named \<^verbatim>\<open>a\<close> and the new list
  has the second of them, so \<^verbatim>\<open>a\<close> is not reported as changed; the new list has
  two elements named \<^verbatim>\<open>c\<close>, of which the second is reported as added.
\<close>

theorem C10_last_duplicate_wins_witness:
  "get_diff_for ''models'' dup_saved dup_new = Inr dup_diff
   \<and> set (deleted_elements dup_diff)
       = {e. \<exists>n. last_named n (section_of dup_saved ''models'') = Some e
                \<and> last_named n (section_of dup_new ''models'') = None}
   \<and> set (added_elements dup_diff)
       = {e. \<exists>n. last_named n (section_of dup_new ''models'') = Some e
                \<and> last_named n (section_of dup_saved ''models'') = None}
   \<and> set (changed_elements dup_diff)
       = {e. \<exists>n e0. last_named n (section_of dup_new ''models'') = Some e
                   \<and> last_named n (section_of dup_saved ''models'') = Some e0 \<and> e0 \<noteq> e}
   \<and> last_named (YStr ''a'') (section_of dup_saved ''models'') = Some a2_elem
   \<and> changed_elements dup_diff = []"
proof -
  have "last_named (YStr ''a'') (section_of dup_saved ''models'') = Some a2_elem"
    by (simp add: last_named_def named_def section_of_def dup_saved_def a1_elem_def
        a2_elem_def b_elem_def)
  then show ?thesis
    using C10_last_duplicate_wins [OF dup_eval] dup_eval by (simp add: dup_diff_def)
qed


subsection \<open>The reparse schedule\<close>

lemma sched_list_Nil: "sched_list [] p k = []"
  by (simp add: sched_list_def lookup_default_def)

lemma outcome_simps [simp]:
  "outcome proj (Inl (e, s)) = s"
  "outcome proj (Inr v) = proj v"
  by (simp_all add: outcome_def)

lemma lookup_default_update:
  "lookup_default (AList.update k v d) k' dflt = (if k' = k then v else lookup_default d k' dflt)"
  by (simp add: lookup_default_def update_conv')

lemma lookup_default_missing: "\<not> has_key d k \<Longrightarrow> lookup_default d k dflt = dflt"
  by (simp add: lookup_default_def has_key_def)

lemma lookup_default_setdefault:
  "lookup_default (if \<not> has_key d k then AList.update k dflt d else d) k' dflt
   = lookup_default d k' dflt"
  by (simp add: lookup_default_update lookup_default_missing)

lemma add_to_pp_files_cases:
  assumes "add_to_pp_files p2p sf st = Inr st'"
  obtains parser where
    "p2p (parse_file_type (heap st sf)) = Some parser" "parser \<noteq> []"
    "project_name (heap st sf) \<noteq> []"
    "heap st' = heap st" "file_diff st' = file_diff st"
    "saved_manifest st' = saved_manifest st" "deleted_manifest st' = deleted_manifest st"
    "new_files st' = new_files st"
    "\<And>p k. sched_list (project_parser_files st') p k =
       (if p = project_name (heap st sf) \<and> k = parser
           \<and> file_id (heap st sf) \<notin> set (sched_list (project_parser_files st) p k)
           \<and> file_id (heap st sf) \<notin> set (deleted (file_diff st))
        then sched_list (project_parser_files st) p k @ [file_id (heap st sf)]
        else sched_list (project_parser_files st) p k)"
proof -
  from assms obtain parser where
    p: "p2p (parse_file_type (heap st sf)) = Some parser" "parser \<noteq> []"
      "project_name (heap st sf) \<noteq> []"
    by (auto simp: add_to_pp_files_def Let_def split: option.splits if_splits)
  define project where "project = project_name (heap st sf)"
  define fid where "fid = file_id (heap st sf)"
  define ppf where "ppf = project_parser_files st"
  define ppf1 where "ppf1 = (if \<not> has_key ppf project then AList.update project [] ppf else ppf)"
  define inner where "inner = lookup_default ppf1 project []"
  define inner1 where
    "inner1 = (if \<not> has_key inner parser then AList.update parser [] inner else inner)"
  define ids where "ids = lookup_default inner1 parser []"
  define inner2 where
    "inner2 = (if fid \<notin> set ids \<and> fid \<notin> set (deleted (file_diff st))
               then AList.update parser (ids @ [fid]) inner1 else inner1)"
  have "add_to_pp_files p2p sf st
        = Inr (st\<lparr>project_parser_files := AList.update project inner2 ppf1\<rparr>)"
    unfolding add_to_pp_files_def Let_def project_def fid_def ppf_def ppf1_def inner_def
      inner1_def ids_def inner2_def
    using p by (simp cong: if_cong)
  with assms have st': "st' = st\<lparr>project_parser_files := AList.update project inner2 ppf1\<rparr>"
    by simp
  have l1: "lookup_default ppf1 q [] = lookup_default ppf q []" for q
    unfolding ppf1_def by (rule lookup_default_setdefault)
  have l2: "lookup_default inner1 k [] = lookup_default inner k []" for k
    unfolding inner1_def by (rule lookup_default_setdefault)
  have ids: "ids = sched_list ppf project parser"
    by (simp add: ids_def l2 inner_def l1 sched_list_def)
  have l3: "lookup_default inner2 k [] =
      (if k = parser \<and> fid \<notin> set ids \<and> fid \<notin> set (deleted (file_diff st))
       then ids @ [fid] else lookup_default inner k [])" for k
    by (simp add: inner2_def lookup_default_update l2 ids_def)
  have "sched_list (project_parser_files st') q k =
       (if q = project \<and> k = parser
           \<and> fid \<notin> set (sched_list ppf q k)
           \<and> fid \<notin> set (deleted (file_diff st))
        then sched_list ppf q k @ [fid]
        else sched_list ppf q k)" for q k
    by (simp add: st' sched_list_def lookup_default_update l3 l1 inner_def ids [unfolded sched_list_def])
  with p show ?thesis
    using that [of parser] st' by (simp add: project_def fid_def ppf_def)
qed

lemma add_to_pp_files_raises:
  "add_to_pp_files p2p sf st = Inl (e, s) \<Longrightarrow> s = st"
  by (auto simp: add_to_pp_files_def Let_def split: option.splits if_splits)

lemma inv_add_to_pp_files:
  assumes "sched_inv fd s"
  shows "sched_inv fd (outcome (\<lambda>s. s) (add_to_pp_files p2p sf s))"
proof (cases "add_to_pp_files p2p sf s")
  case (Inl a)
  then show ?thesis using assms add_to_pp_files_raises [of p2p sf s "fst a" "snd a"]
    by (cases a) simp
next
  case (Inr s')
  then show ?thesis
  proof (cases rule: add_to_pp_files_cases)
    case (1 parser)
    have fd: "file_diff s' = file_diff s"
      by (rule 1(5))
    have ok: "distinct (sched_list (project_parser_files s) p k)
        \<and> set (sched_list (project_parser_files s) p k) \<inter> set (deleted (file_diff s)) = {}"
      for p k
      using assms unfolding sched_inv_def schedule_ok_def by blast
    have "distinct (sched_list (project_parser_files s') p k)
        \<and> set (sched_list (project_parser_files s') p k) \<inter> set (deleted (file_diff s)) = {}"
      for p k
      using ok [of p k] by (auto simp: 1(9))
    then have "schedule_ok s'"
      unfolding schedule_ok_def fd by blast
    then show ?thesis
      using assms Inr fd by (simp add: sched_inv_def)
  qed
qed

lemma inv_and_then:
  assumes "sched_inv fd (outcome p1 m)" and "\<And>v. sched_inv fd (p1 v) \<Longrightarrow> sched_inv fd (outcome p2 (k v))"
  shows "sched_inv fd (outcome p2 (and_then m k))"
proof (cases m)
  case (Inl a)
  then show ?thesis using assms(1) by (cases a) simp
next
  case (Inr v)
  then show ?thesis using assms by simp
qed

lemma inv_and_then_e:
  assumes "sched_inv fd (outcome (\<lambda>s. s) m)"
    and "\<And>s'. sched_inv fd s' \<Longrightarrow> sched_inv fd (outcome p2 (k s'))"
  shows "sched_inv fd (outcome p2 (and_then m k))"
  using assms by (rule inv_and_then)

lemma inv_and_then_r:
  assumes "sched_inv fd (outcome snd m)"
    and "\<And>v s'. sched_inv fd s' \<Longrightarrow> sched_inv fd (outcome p2 (k (v, s')))"
  shows "sched_inv fd (outcome p2 (and_then m k))"
  using assms(1)
proof (rule inv_and_then)
  fix v :: "'a \<times> pstate"
  assume "sched_inv fd (snd v)"
  then show "sched_inv fd (outcome p2 (k v))"
    using assms(2) [of "snd v" "fst v"] by simp
qed

lemma inv_for_each:
  assumes "\<And>x s. sched_inv fd s \<Longrightarrow> sched_inv fd (outcome (\<lambda>s. s) (body x s))" and "sched_inv fd s"
  shows "sched_inv fd (outcome (\<lambda>s. s) (for_each body xs s))"
  using assms(2)
proof (induction xs arbitrary: s)
  case Nil
  then show ?case by simp
next
  case (Cons x xs)
  show ?case
    unfolding for_each.simps
    by (rule inv_and_then [where ?p1.0 = "\<lambda>s. s"]) (auto intro: assms(1) Cons)
qed

lemma inv_frame [simp]:
  "sched_inv fd (s\<lparr>heap := h\<rparr>) = sched_inv fd s"
  "sched_inv fd (s\<lparr>saved_manifest := m\<rparr>) = sched_inv fd s"
  "sched_inv fd (s\<lparr>deleted_manifest := m\<rparr>) = sched_inv fd s"
  by (simp_all add: sched_inv_def schedule_ok_def)

lemma inv_set_file [simp]: "sched_inv fd (set_file a f s) = sched_inv fd s"
  by (simp add: set_file_def)

lemma inv_set_saved_file [simp]: "sched_inv fd (set_saved_file k a s) = sched_inv fd s"
  by (simp add: set_saved_file_def)

lemma inv_move_file: "sched_inv fd s \<Longrightarrow> sched_inv fd (outcome (\<lambda>s. s) (move_file k s))"
  by (auto simp: move_file_def split: option.splits)

lemma inv_move_node: "sched_inv fd s \<Longrightarrow> sched_inv fd (outcome snd (move_node k s))"
  by (auto simp: move_node_def split: option.splits)

lemma inv_move_macro: "sched_inv fd s \<Longrightarrow> sched_inv fd (outcome snd (move_macro k s))"
  by (auto simp: move_macro_def split: option.splits)

lemma inv_move_doc: "sched_inv fd s \<Longrightarrow> sched_inv fd (outcome (\<lambda>s. s) (move_doc k s))"
  by (auto simp: move_doc_def split: option.splits)

lemmas inv_rules = inv_and_then_e inv_and_then_r inv_for_each inv_add_to_pp_files inv_move_file inv_move_node
  inv_move_macro inv_move_doc

lemma inv_merge_patch: "sched_inv fd s \<Longrightarrow> sched_inv fd (outcome (\<lambda>s. s) (merge_patch sf key patch s))"
  unfolding merge_patch_def
  by (auto intro!: inv_rules split: option.splits sum.splits)

lemma inv_get_tests_for: "sched_inv fd s \<Longrightarrow> sched_inv fd (outcome snd (get_tests_for sf n s))"
  unfolding get_tests_for_def
  by (auto intro!: inv_rules split: option.splits sum.splits yval.splits)

lemma inv_unlink_patched_node:
  "sched_inv fd s \<Longrightarrow> sched_inv fd (outcome (\<lambda>s. s) (unlink_patched_node p2p u s))"
  unfolding unlink_patched_node_def Let_def
  by (auto intro!: inv_rules split: option.splits sum.splits)

lemma inv_remove_test: "sched_inv fd s \<Longrightarrow> sched_inv fd (outcome (\<lambda>s. s) (remove_test sf t s))"
  unfolding remove_test_def
  by (auto intro!: inv_rules split: option.splits sum.splits)

lemma inv_delete_schema_mssa_links:
  "sched_inv fd s \<Longrightarrow> sched_inv fd (outcome (\<lambda>s. s) (delete_schema_mssa_links p2p sf key elem s))"
  unfolding delete_schema_mssa_links_def
  by (auto intro!: inv_rules inv_unlink_patched_node inv_get_tests_for inv_remove_test
      split: option.splits sum.splits)

lemmas inv_rules2 = inv_rules inv_merge_patch inv_get_tests_for inv_unlink_patched_node
  inv_remove_test inv_delete_schema_mssa_links

lemma inv_reapply_patch:
  "sched_inv fd s \<Longrightarrow> sched_inv fd (outcome (\<lambda>s. s) (reapply_patch p2p sf key elem u s))"
  unfolding reapply_patch_def
  by (auto intro!: inv_rules2)

lemma inv_delete_node_in_saved:
  "sched_inv fd s \<Longrightarrow> sched_inv fd (outcome (\<lambda>s. s) (delete_node_in_saved p2p sf u s))"
  unfolding delete_node_in_saved_def
  by (auto intro!: inv_rules2 inv_reapply_patch split: option.splits sum.splits)

lemma inv_schedule_dependent:
  "sched_inv fd s \<Longrightarrow> sched_inv fd (outcome (\<lambda>s. s) (schedule_dependent p2p u d m s))"
  unfolding schedule_dependent_def
  by (auto intro!: inv_rules2 split: option.splits)

lemma inv_macro_links_step:
  "sched_inv fd s \<Longrightarrow> sched_inv fd (outcome (\<lambda>s. s) (macro_links_step p2p u s))"
  unfolding macro_links_step_def
  by (auto intro!: inv_rules2 inv_schedule_dependent)

lemma inv_handle_macro_file_links:
  "sched_inv fd s \<Longrightarrow> sched_inv fd (outcome (\<lambda>s. s) (handle_macro_file_links p2p sf s))"
  unfolding handle_macro_file_links_def
  by (auto intro!: inv_rules2 inv_macro_links_step)

lemma inv_delete_macro_file:
  "sched_inv fd s \<Longrightarrow> sched_inv fd (outcome (\<lambda>s. s) (delete_macro_file p2p sf s))"
  unfolding delete_macro_file_def
  by (auto intro!: inv_rules2 inv_handle_macro_file_links)

lemma inv_delete_doc_file:
  "sched_inv fd s \<Longrightarrow> sched_inv fd (outcome (\<lambda>s. s) (delete_doc_file sf s))"
  unfolding delete_doc_file_def
  by (auto intro!: inv_rules2)

lemma inv_delete_mssat_file:
  "sched_inv fd s \<Longrightarrow> sched_inv fd (outcome (\<lambda>s. s) (delete_mssat_file p2p sf s))"
  unfolding delete_mssat_file_def
  by (auto intro!: inv_rules2 inv_delete_node_in_saved)

lemma inv_delete_from_saved:
  "sched_inv fd s \<Longrightarrow> sched_inv fd (outcome (\<lambda>s. s) (delete_from_saved p2p k s))"
  unfolding delete_from_saved_def
  by (auto intro!: inv_rules2 inv_delete_mssat_file inv_delete_macro_file inv_delete_doc_file
      split: option.splits)

lemma inv_update_mssat_in_saved:
  "sched_inv fd s \<Longrightarrow> sched_inv fd (outcome (\<lambda>s. s) (update_mssat_in_saved p2p n old s))"
  unfolding update_mssat_in_saved_def Let_def
  by (auto intro!: inv_rules2 inv_delete_node_in_saved split: list.splits)

lemma inv_update_macro_in_saved:
  "sched_inv fd s \<Longrightarrow> sched_inv fd (outcome (\<lambda>s. s) (update_macro_in_saved p2p n old s))"
  unfolding update_macro_in_saved_def
  by (auto intro!: inv_rules2 inv_handle_macro_file_links)

lemma inv_update_doc_in_saved:
  "sched_inv fd s \<Longrightarrow> sched_inv fd (outcome (\<lambda>s. s) (update_doc_in_saved p2p n old s))"
  unfolding update_doc_in_saved_def
  by (auto intro!: inv_rules2)

lemma inv_update_in_saved:
  "sched_inv fd s \<Longrightarrow> sched_inv fd (outcome (\<lambda>s. s) (update_in_saved p2p k s))"
  unfolding update_in_saved_def
  by (auto intro!: inv_update_mssat_in_saved inv_update_macro_in_saved inv_update_doc_in_saved
      split: option.splits)

lemma inv_add_to_saved:
  "sched_inv fd s \<Longrightarrow> sched_inv fd (outcome (\<lambda>s. s) (add_to_saved p2p k s))"
  unfolding add_to_saved_def
  by (auto intro!: inv_rules2 split: option.splits)

lemma inv_delete_source_step:
  "sched_inv fd s \<Longrightarrow> sched_inv fd (outcome (\<lambda>s. s) (delete_source_step n u s))"
  unfolding delete_source_step_def dict_pop_def
  by (auto split: option.splits)

lemma inv_delete_schema_source:
  "sched_inv fd s \<Longrightarrow> sched_inv fd (outcome (\<lambda>s. s) (delete_schema_source sf src s))"
  unfolding delete_schema_source_def
  by (auto intro!: inv_rules2 inv_delete_source_step split: option.splits)

lemma inv_delete_schema_macro_patch:
  "sched_inv fd s \<Longrightarrow> sched_inv fd (outcome (\<lambda>s. s) (delete_schema_macro_patch p2p sf m s))"
  unfolding delete_schema_macro_patch_def
  by (auto intro!: inv_rules2 split: option.splits sum.splits)

lemma inv_delete_exposure_step:
  "sched_inv fd s \<Longrightarrow> sched_inv fd (outcome (\<lambda>s. s) (delete_exposure_step n u s))"
  unfolding delete_exposure_step_def dict_pop_def
  by (auto split: option.splits)

lemma inv_delete_schema_exposure:
  "sched_inv fd s \<Longrightarrow> sched_inv fd (outcome (\<lambda>s. s) (delete_schema_exposure sf e s))"
  unfolding delete_schema_exposure_def
  by (auto intro!: inv_rules2 inv_delete_exposure_step split: option.splits)

lemma inv_mssa_sections:
  "sched_inv fd s \<Longrightarrow> sched_inv fd (outcome snd (mssa_sections p2p sf saved new ks ev s))"
proof (induction ks arbitrary: ev s)
  case Nil
  then show ?case by simp
next
  case (Cons k ks)
  show ?case
    unfolding mssa_sections.simps
    using Cons.prems
    by (auto intro!: inv_rules2 Cons.IH split: sum.splits)
qed

lemma inv_sources_section:
  "sched_inv fd s \<Longrightarrow> sched_inv fd (outcome (\<lambda>s. s) (sources_section sf saved new s))"
  unfolding sources_section_def source_changed_def source_deleted_def source_added_def
  by (auto intro!: inv_rules2 inv_delete_schema_source split: sum.splits)

lemma inv_macros_section:
  "sched_inv fd s \<Longrightarrow> sched_inv fd (outcome (\<lambda>s. s) (macros_section p2p sf saved new ev s))"
  unfolding macros_section_def
  by (auto intro!: inv_rules2 inv_delete_schema_macro_patch split: sum.splits option.splits)

lemma inv_exposures_section:
  "sched_inv fd s \<Longrightarrow> sched_inv fd (outcome (\<lambda>s. s) (exposures_section sf saved new s))"
  unfolding exposures_section_def
  by (auto intro!: inv_rules2 inv_delete_schema_exposure split: sum.splits)

lemma inv_handle_schema_file_changes:
  "sched_inv fd s \<Longrightarrow> sched_inv fd (outcome (\<lambda>s. s) (handle_schema_file_changes p2p sf saved new s))"
  unfolding handle_schema_file_changes_def
  by (auto intro!: inv_rules2 inv_mssa_sections inv_sources_section inv_macros_section
      inv_exposures_section simp del: mssa_sections.simps)

lemma inv_change_schema_file:
  "sched_inv fd s \<Longrightarrow> sched_inv fd (outcome (\<lambda>s. s) (change_schema_file p2p k s))"
  unfolding change_schema_file_def Let_def
  by (auto intro!: inv_rules2 inv_handle_schema_file_changes split: option.splits)

lemma inv_delete_schema_file:
  "sched_inv fd s \<Longrightarrow> sched_inv fd (outcome (\<lambda>s. s) (delete_schema_file p2p k s))"
  unfolding delete_schema_file_def
  by (auto intro!: inv_rules2 inv_handle_schema_file_changes split: option.splits)

lemma inv_get_parsing_files:
  "sched_inv fd s \<Longrightarrow> sched_inv fd (outcome snd (get_parsing_files p2p s))"
  unfolding get_parsing_files_def
  by (auto intro!: inv_rules2 inv_add_to_saved inv_change_schema_file inv_delete_schema_file
      inv_delete_from_saved inv_update_in_saved)

lemma schedule_ok_inv: "schedule_ok st \<Longrightarrow> sched_inv (file_diff st) st"
  by (simp add: sched_inv_def)

text \<open>
  Claim C7. From a state whose schedule has no duplicate in any list and no file id
  of the \<^verbatim>\<open>deleted\<close> bucket, (1) any sequence of \<^verbatim>\<open>add_to_pp_files\<close> calls, in
  any order and with any repetition, leaves a schedule with that property, whether
  the sequence runs to its end or a call raises; (2) so does the whole of
  \<^verbatim>\<open>get_parsing_files\<close>, which touches the schedule through no other function;
  and (3) a call for a file whose kind has no parser in the table or an empty one,
  or whose project name is empty, raises and leaves the state as it was.
\<close>

theorem C7_schedule_invariant:
  assumes "schedule_ok st"
  shows "schedule_ok (state_after (for_each (add_to_pp_files p2p) calls st))
       \<and> schedule_ok (outcome snd (get_parsing_files p2p st))
       \<and> (p2p (parse_file_type (heap st sf)) = None
            \<or> p2p (parse_file_type (heap st sf)) = Some []
            \<or> project_name (heap st sf) = []
           \<longrightarrow> isl (add_to_pp_files p2p sf st)
               \<and> state_after (add_to_pp_files p2p sf st) = st)"
proof -
  have i: "sched_inv (file_diff st) st"
    using assms by (rule schedule_ok_inv)
  have "sched_inv (file_diff st) (outcome (\<lambda>s. s) (for_each (add_to_pp_files p2p) calls st))"
    using i by (intro inv_for_each inv_add_to_pp_files)
  moreover have "sched_inv (file_diff st) (outcome snd (get_parsing_files p2p st))"
    using i by (rule inv_get_parsing_files)
  moreover have "isl (add_to_pp_files p2p sf st)
      \<and> state_after (add_to_pp_files p2p sf st) = st"
    if "p2p (parse_file_type (heap st sf)) = None
        \<or> p2p (parse_file_type (heap st sf)) = Some []
        \<or> project_name (heap st sf) = []"
    using that
    by (auto simp: add_to_pp_files_def Let_def state_after_def split: option.splits)
  ultimately show ?thesis
    by (simp add: sched_inv_def state_after_def)
qed

text \<open>
  Witness for C7: in the example project with \<^verbatim>\<open>a.sql\<close> marked as deleted, five
  calls that name the model's file twice (old and new version) and the deleted macro
  file twice schedule the model's file once and the macro file not at all; the file
  at address 6 has no project name.
\<close>

theorem C7_schedule_invariant_witness:
  "schedule_ok deleting_state
   \<and> schedule_ok (state_after (for_each (add_to_pp_files example_parsers) [2, 4, 3, 12, 4]
        deleting_state))
   \<and> project_parser_files
       (state_after (for_each (add_to_pp_files example_parsers) [2, 4, 3, 12, 4] deleting_state))
     = [(''test'', [(''ModelParser'', [''test://m3.sql'']), (''MacroParser'', []),
                    (''SchemaParser'', [''test://schema.yml''])])]
   \<and> schedule_ok (outcome snd (get_parsing_files example_parsers deleting_state))
   \<and> project_name (heap deleting_state 6) = []
   \<and> isl (add_to_pp_files example_parsers 6 deleting_state)
   \<and> state_after (add_to_pp_files example_parsers 6 deleting_state) = deleting_state"
proof -
  have ok: "schedule_ok deleting_state"
    by (simp add: schedule_ok_def deleting_state_def example_state_def sched_list_Nil)
  have p: "project_name (heap deleting_state 6) = []"
    by (simp add: deleting_state_def example_state_def example_heap_def blank_file_def)
  have e: "project_parser_files
       (state_after (for_each (add_to_pp_files example_parsers) [2, 4, 3, 12, 4] deleting_state))
     = [(''test'', [(''ModelParser'', [''test://m3.sql'']), (''MacroParser'', []),
                    (''SchemaParser'', [''test://schema.yml''])])]"
    by (simp add: add_to_pp_files_def Let_def deleting_state_def example_state_def
        example_heap_def example_schema_file_def blank_file_def example_parsers_def
        has_key_def lookup_default_def state_after_def)
  show ?thesis
    using C7_schedule_invariant [OF ok, of example_parsers "[2, 4, 3, 12, 4]" 6] ok p e by simp
qed

subsection \<open>Deleting a patched model\<close>

lemma test_index_loop_lookup:
  assumes "\<forall>t \<in> set ts. \<exists>n d ds. map_of N t = Some n \<and> depends_on_nodes n = d # ds"
  shows "\<exists>idx'. test_index_loop N ts idx = Inr idx'
           \<and> (\<forall>nm. lookup_default idx' nm [] = lookup_default idx nm [] @ tests_for N nm ts)"
  using assms
proof (induction ts arbitrary: idx)
  case Nil
  then show ?case by (simp add: tests_for_def)
next
  case (Cons t ts)
  then obtain n d ds where n: "map_of N t = Some n" "depends_on_nodes n = d # ds"
    by auto
  define idx1 where
    "idx1 = (if has_key idx (last_part d)
             then AList.update (last_part d) (lookup_default idx (last_part d) [] @ [t]) idx
             else AList.update (last_part d) [t] idx)"
  have l1: "lookup_default idx1 nm [] =
      lookup_default idx nm [] @ (if nm = last_part d then [t] else [])" for nm
    by (simp add: idx1_def lookup_default_update lookup_default_missing)
  from Cons.prems have "\<forall>t \<in> set ts. \<exists>n d ds. map_of N t = Some n \<and> depends_on_nodes n = d # ds"
    by simp
  from Cons.IH [OF this, of idx1] obtain idx' where
    idx': "test_index_loop N ts idx1 = Inr idx'"
      "\<And>nm. lookup_default idx' nm [] = lookup_default idx1 nm [] @ tests_for N nm ts"
    by blast
  have "test_index_loop N (t # ts) idx = Inr idx'"
    using n idx'(1) by (simp add: idx1_def Let_def)
  moreover have "lookup_default idx' nm [] = lookup_default idx nm [] @ tests_for N nm (t # ts)"
    for nm
    using n by (simp add: idx'(2) l1 tests_for_def)
  ultimately show ?case by blast
qed

lemma find_patch_id_member:
  "find_patch_id pfx elem ids = Inr uid \<Longrightarrow> uid \<noteq> [] \<Longrightarrow> uid \<in> set ids"
  by (induction ids) (auto split: if_splits option.splits)

lemma remove_tests:
  assumes "distinct ts" "set ts \<subseteq> set (tests (heap s sf))"
    "\<forall>t \<in> set ts. map_of (nodes (saved_manifest s)) t \<noteq> None"
  shows "\<exists>s'. for_each (remove_test sf) ts s = Inr s'
      \<and> map_of (nodes (saved_manifest s')) = map_of (nodes (saved_manifest s)) |` (- set ts)
      \<and> (\<forall>k. map_of (nodes (deleted_manifest s')) k =
               (if k \<in> set ts then map_of (nodes (saved_manifest s)) k
                else map_of (nodes (deleted_manifest s)) k))
      \<and> project_parser_files s' = project_parser_files s
      \<and> file_diff s' = file_diff s"
  using assms
proof (induction ts arbitrary: s)
  case Nil
  then show ?case by simp
next
  case (Cons t ts)
  from Cons.prems obtain node where node: "map_of (nodes (saved_manifest s)) t = Some node"
    by auto
  define s1 where
    "s1 = s\<lparr>saved_manifest := (saved_manifest s)\<lparr>nodes := AList.delete t (nodes (saved_manifest s))\<rparr>,
            deleted_manifest := (deleted_manifest s)
              \<lparr>nodes := AList.update t node (nodes (deleted_manifest s))\<rparr>\<rparr>"
  define s2 where
    "s2 = set_file sf ((heap s1 sf)\<lparr>tests := remove1 t (tests (heap s1 sf))\<rparr>) s1"
  have mv: "move_node t s = Inr (node, s1)"
    using node by (simp add: move_node_def dict_pop_def s1_def)
  have "t \<in> set (tests (heap s1 sf))"
    using Cons.prems(2) by (simp add: s1_def)
  then have step: "remove_test sf t s = Inr s2"
    using mv by (simp add: remove_test_def list_remove_def s2_def)
  have a: "distinct ts" using Cons.prems(1) by simp
  have b: "set ts \<subseteq> set (tests (heap s2 sf))"
  proof
    fix x assume x: "x \<in> set ts"
    with Cons.prems(1) have "x \<noteq> t" by auto
    moreover from x Cons.prems(2) have "x \<in> set (tests (heap s sf))" by auto
    ultimately show "x \<in> set (tests (heap s2 sf))"
      by (simp add: s2_def s1_def set_file_def)
  qed
  have c: "\<forall>t' \<in> set ts. map_of (nodes (saved_manifest s2)) t' \<noteq> None"
    using Cons.prems(1,3) by (auto simp: s2_def s1_def set_file_def delete_conv')
  from Cons.IH [OF a b c] obtain s' where s':
    "for_each (remove_test sf) ts s2 = Inr s'"
    "map_of (nodes (saved_manifest s')) = map_of (nodes (saved_manifest s2)) |` (- set ts)"
    "\<And>k. map_of (nodes (deleted_manifest s')) k =
               (if k \<in> set ts then map_of (nodes (saved_manifest s2)) k
                else map_of (nodes (deleted_manifest s2)) k)"
    "project_parser_files s' = project_parser_files s2"
    "file_diff s' = file_diff s2"
    by blast
  have "for_each (remove_test sf) (t # ts) s = Inr s'"
    using step s'(1) by simp
  moreover have "map_of (nodes (saved_manifest s')) = map_of (nodes (saved_manifest s)) |` (- set (t # ts))"
    by (rule ext) (simp add: s'(2) s2_def s1_def set_file_def delete_conv' restrict_map_def)
  moreover have "map_of (nodes (deleted_manifest s')) k =
               (if k \<in> set (t # ts) then map_of (nodes (saved_manifest s)) k
                else map_of (nodes (deleted_manifest s)) k)" for k
    using Cons.prems(1) node
    by (auto simp: s'(3) s2_def s1_def set_file_def delete_conv' update_conv')
  moreover have "project_parser_files s' = project_parser_files s" "file_diff s' = file_diff s"
    by (simp_all add: s'(4,5) s2_def s1_def set_file_def)
  ultimately show ?case by blast
qed

lemma add_to_pp_files_returns:
  "p2p (parse_file_type (heap st sf)) = Some parser \<Longrightarrow> parser \<noteq> [] \<Longrightarrow>
   project_name (heap st sf) \<noteq> [] \<Longrightarrow> \<exists>st'. add_to_pp_files p2p sf st = Inr st'"
  by (simp add: add_to_pp_files_def Let_def)

lemma tests_for_cong:
  "(\<And>t. t \<in> set ts \<Longrightarrow> map_of N t = map_of N' t) \<Longrightarrow> tests_for N nm ts = tests_for N' nm ts"
  unfolding tests_for_def by (rule filter_cong) simp_all

lemma tests_for_subset: "set (tests_for N nm ts) \<subseteq> set ts"
  by (simp add: tests_for_def)

lemma tests_for_distinct: "distinct ts \<Longrightarrow> distinct (tests_for N nm ts)"
  by (simp add: tests_for_def)

lemma remove_tests_heap:
  "for_each (remove_test sf) ts s = Inr s' \<Longrightarrow>
   \<exists>tl. heap s' = (heap s)(sf := (heap s sf)\<lparr>tests := tl\<rparr>)"
proof (induction ts arbitrary: s)
  case Nil
  then have "heap s' = (heap s)(sf := (heap s sf)\<lparr>tests := tests (heap s sf)\<rparr>)" by simp
  then show ?case by blast
next
  case (Cons t ts)
  from Cons.prems obtain s2 where a: "remove_test sf t s = Inr s2"
    and b: "for_each (remove_test sf) ts s2 = Inr s'"
    by (cases "remove_test sf t s") auto
  from a obtain tl0 where h2: "heap s2 = (heap s)(sf := (heap s sf)\<lparr>tests := tl0\<rparr>)"
    by (auto simp: remove_test_def move_node_def dict_pop_def set_file_def list_remove_def
        split: option.splits if_splits)
  from Cons.IH [OF b] obtain tl where "heap s' = (heap s2)(sf := (heap s2 sf)\<lparr>tests := tl\<rparr>)"
    by blast
  then have "heap s' = (heap s)(sf := (heap s sf)\<lparr>tests := tl\<rparr>)"
    by (simp add: h2)
  then show ?case by blast
qed

lemma find_elem_patch_last_named:
  "list_all (\<lambda>e. fmlookup e ''name'' \<noteq> None) es \<Longrightarrow>
   find_elem_patch es name acc
     = Inr (case last_named (YStr name) es of None \<Rightarrow> acc | Some e \<Rightarrow> Some e)"
proof (induction es arbitrary: acc)
  case Nil
  then show ?case by (simp add: last_named_def named_def)
next
  case (Cons e es)
  then show ?case
    by (auto simp: last_named_Cons split: option.splits)
qed

lemma last_named_name: "last_named n es = Some e \<Longrightarrow> fmlookup e ''name'' = Some n"
proof -
  assume a: "last_named n es = Some e"
  then have ne: "named n es \<noteq> []" and e: "e = last (named n es)"
    by (auto simp: last_named_def split: list.splits)
  then have "e \<in> set (named n es)" by simp
  then show ?thesis by (simp add: named_def)
qed

lemma patch_found_returns:
  "list_all (\<lambda>e. fmlookup e ''name'' \<noteq> None) es \<Longrightarrow> fmlookup patch ''name'' = Some n \<Longrightarrow>
   \<exists>b. patch_found es patch b0 = Inr b"
  by (induction es arbitrary: b0) auto

lemma merge_patch_returns:
  assumes "is_schema_source_file (heap s sf)"
    and "version (dict_from_yaml (heap s sf)) = Some v"
    and "fmlookup patch ''name'' = Some n"
    and "list_all (\<lambda>e. fmlookup e ''name'' \<noteq> None) (queued (heap s sf) key)"
  shows "\<exists>s'. merge_patch sf key patch s = Inr s'"
proof (cases "yaml_falsy (pp_dict (heap s sf))")
  case True
  with assms show ?thesis
    by (simp add: merge_patch_def set_file_def)
next
  case False
  then obtain pp where pp: "pp_dict (heap s sf) = Some pp"
    by (auto simp: yaml_falsy_def split: option.splits)
  show ?thesis
  proof (cases "fmlookup (sections pp) key")
    case None
    with assms False pp show ?thesis by (simp add: merge_patch_def)
  next
    case (Some es)
    with assms(4) pp have "list_all (\<lambda>e. fmlookup e ''name'' \<noteq> None) es"
      by (simp add: queued_def)
    from patch_found_returns [OF this assms(3), of False] obtain b where
      "patch_found es patch False = Inr b" by blast
    with assms False pp Some show ?thesis by (simp add: merge_patch_def)
  qed
qed

lemma merge_patch_frame:
  assumes "merge_patch sf key patch s = Inr s'"
  shows "saved_manifest s' = saved_manifest s \<and> deleted_manifest s' = deleted_manifest s
    \<and> project_parser_files s' = project_parser_files s \<and> file_diff s' = file_diff s
    \<and> parse_file_type (heap s' a) = parse_file_type (heap s a)
    \<and> project_name (heap s' a) = project_name (heap s a)
    \<and> file_id (heap s' a) = file_id (heap s a)"
  using assms
  by (cases rule: merge_patch_cases) (simp_all add: set_file_def)


lemma unlink_popped_element:
  assumes sch: "is_schema_source_file (heap s sf)"
    and nm: "fmlookup elem ''name'' = Some (YStr name)"
    and pid: "find_patch_id ''model'' elem (node_patches (heap s sf)) = Inr uid" "uid \<noteq> []"
    and gone: "map_of (nodes (saved_manifest s)) uid = None"
    and idx: "index_falsy (pp_test_index (heap s sf))"
    and dt: "distinct (tests (heap s sf))"
    and wf: "\<forall>t \<in> set (tests (heap s sf)).
               \<exists>n d ds. map_of (nodes (saved_manifest s)) t = Some n \<and> depends_on_nodes n = d # ds"
  shows "\<exists>s'. delete_schema_mssa_links p2p sf ''models'' elem s = Inr s'
      \<and> map_of (nodes (saved_manifest s'))
          = map_of (nodes (saved_manifest s))
              |` (- set (tests_for (nodes (saved_manifest s)) name (tests (heap s sf))))
      \<and> (\<forall>k. map_of (nodes (deleted_manifest s')) k =
            (if k \<in> set (tests_for (nodes (saved_manifest s)) name (tests (heap s sf)))
             then map_of (nodes (saved_manifest s)) k
             else map_of (nodes (deleted_manifest s)) k))
      \<and> project_parser_files s' = project_parser_files s
      \<and> file_diff s' = file_diff s
      \<and> is_schema_source_file (heap s' sf)
      \<and> pp_dict (heap s' sf) = pp_dict (heap s sf)
      \<and> dfy (heap s' sf) = dfy (heap s sf)
      \<and> parse_file_type (heap s' sf) = parse_file_type (heap s sf)
      \<and> project_name (heap s' sf) = project_name (heap s sf)
      \<and> file_id (heap s' sf) = file_id (heap s sf)"
proof -
  let ?N = "nodes (saved_manifest s)"
  let ?ts = "tests_for ?N name (tests (heap s sf))"
  define s4 where
    "s4 = set_file sf ((heap s sf)\<lparr>node_patches := remove1 uid (node_patches (heap s sf))\<rparr>) s"
  have uid_in: "uid \<in> set (node_patches (heap s sf))"
    using pid by (rule find_patch_id_member)
  from test_index_loop_lookup [OF wf, of "[]"] obtain ix where
    ix: "test_index_loop ?N (tests (heap s sf)) [] = Inr ix"
      "\<And>n. lookup_default ix n [] = tests_for ?N n (tests (heap s sf))"
    by (auto simp: lookup_default_def)
  define s5 where "s5 = set_file sf ((heap s4 sf)\<lparr>pp_test_index := Some ix\<rparr>) s4"
  have gt: "get_tests_for sf (YStr name) s4 = Inr (?ts, s5)"
    using sch idx ix(1) by (simp add: get_tests_for_def s4_def s5_def set_file_def ix(2))
  have a: "distinct ?ts" using dt by (rule tests_for_distinct)
  have b: "set ?ts \<subseteq> set (tests (heap s5 sf))"
    using tests_for_subset [of ?N name "tests (heap s sf)"]
    by (simp add: s5_def s4_def set_file_def)
  have N5: "nodes (saved_manifest s5) = ?N"
    and D5: "nodes (deleted_manifest s5) = nodes (deleted_manifest s)"
    and P5: "project_parser_files s5 = project_parser_files s" "file_diff s5 = file_diff s"
    by (simp_all add: s5_def s4_def set_file_def)
  have c: "\<forall>t \<in> set ?ts. map_of (nodes (saved_manifest s5)) t \<noteq> None"
    using wf tests_for_subset [of ?N name "tests (heap s sf)"]
    by (auto simp: N5)
  from remove_tests [OF a b c] obtain s' where s':
    "for_each (remove_test sf) ?ts s5 = Inr s'"
    "map_of (nodes (saved_manifest s')) = map_of (nodes (saved_manifest s5)) |` (- set ?ts)"
    "\<And>k. map_of (nodes (deleted_manifest s')) k =
               (if k \<in> set ?ts then map_of (nodes (saved_manifest s5)) k
                else map_of (nodes (deleted_manifest s5)) k)"
    "project_parser_files s' = project_parser_files s5"
    "file_diff s' = file_diff s5"
    by blast
  from remove_tests_heap [OF s'(1)] obtain tl where
    h: "heap s' = (heap s5)(sf := (heap s5 sf)\<lparr>tests := tl\<rparr>)"
    by blast
  have run: "delete_schema_mssa_links p2p sf ''models'' elem s = Inr s'"
    using sch pid gone uid_in nm gt s'(1)
    by (simp add: delete_schema_mssa_links_def key_to_prefix_def has_key_def list_remove_def
        s4_def [symmetric])
  have fields: "is_schema_source_file (heap s' sf)"
    "pp_dict (heap s' sf) = pp_dict (heap s sf)"
    "dfy (heap s' sf) = dfy (heap s sf)"
    "parse_file_type (heap s' sf) = parse_file_type (heap s sf)"
    "project_name (heap s' sf) = project_name (heap s sf)"
    "file_id (heap s' sf) = file_id (heap s sf)"
    using sch by (simp_all add: h s5_def s4_def set_file_def)
  show ?thesis
    using run s'(2,3,4,5) fields by (intro exI [of _ s']) (simp add: N5 D5 P5)
qed

text \<open>
  Claim C4. Let a model node \<open>unique_id\<close> of the saved manifest be deleted through
  \<^verbatim>\<open>delete_node_in_saved\<close>, called with a model file. Let the node's patch path
  name a schema file that is not in the \<^verbatim>\<open>deleted\<close> bucket, is saved under that id
  and has a parser and a project; let every element of the \<^verbatim>\<open>models\<close> section of
  its document have a name, and let \<open>elem\<close> be the last one named like the node; let
  the schema file record \<open>unique_id\<close> as the patched node of that element; let every
  element queued in its pending patch have a name, let its test index not be built
  yet, and let its test ids be distinct ids of saved nodes, other than \<open>unique_id\<close>,
  that each depend on some node. Write \<open>N\<close> for the number of those tests whose first
  dependency has the node's name as its last name segment. Then the call returns; it
  removes from the saved manifest exactly the node \<open>unique_id\<close> and those \<open>N\<close> test
  nodes, \<open>N + 1\<close> nodes in all, and each of them is in the removed manifest
  afterwards; and the id of the schema file is in the schedule, in the list of the
  schema file's project and parser: the only change to the schedule is that this id is
  appended to that list, unless it is there already.
\<close>

theorem C4_cascade_completeness:
  assumes node: "map_of (nodes (saved_manifest st)) unique_id = Some node"
    and src: "parse_file_type (heap st source_file) = Model"
    and path: "patch_path node = Some fid" "fid \<noteq> []" "fid \<notin> set (deleted (file_diff st))"
    and owner: "map_of (saved_files st) fid = Some schema_file"
      "file_id (heap st schema_file) = fid" "is_schema_source_file (heap st schema_file)"
    and doc: "version (dict_from_yaml (heap st schema_file)) = Some v"
      "fmlookup (sections (dict_from_yaml (heap st schema_file))) ''models'' = Some elems"
      "list_all (\<lambda>e. fmlookup e ''name'' \<noteq> None) elems"
    and elem: "last_named (YStr (node_name node)) elems = Some elem"
    and pid: "find_patch_id ''model'' elem (node_patches (heap st schema_file)) = Inr unique_id"
      "unique_id \<noteq> []"
    and pend: "list_all (\<lambda>e. fmlookup e ''name'' \<noteq> None) (queued (heap st schema_file) ''models'')"
    and idx: "index_falsy (pp_test_index (heap st schema_file))"
    and dt: "distinct (tests (heap st schema_file))"
    and wf: "\<forall>t \<in> set (tests (heap st schema_file)).
               t \<noteq> unique_id \<and> (\<exists>n d ds. map_of (nodes (saved_manifest st)) t = Some n
                                        \<and> depends_on_nodes n = d # ds)"
    and parser: "p2p (parse_file_type (heap st schema_file)) = Some parser" "parser \<noteq> []"
      "project_name (heap st schema_file) \<noteq> []"
  shows "\<exists>st'. delete_node_in_saved p2p source_file unique_id st = Inr st'
      \<and> map_of (nodes (saved_manifest st'))
          = map_of (nodes (saved_manifest st))
              |` (- ({unique_id} \<union> set (tests_for (nodes (saved_manifest st)) (node_name node)
                                         (tests (heap st schema_file)))))
      \<and> (\<forall>k \<in> {unique_id} \<union> set (tests_for (nodes (saved_manifest st)) (node_name node)
                                       (tests (heap st schema_file))).
            map_of (nodes (deleted_manifest st')) k = map_of (nodes (saved_manifest st)) k)
      \<and> card ({unique_id} \<union> set (tests_for (nodes (saved_manifest st)) (node_name node)
                                    (tests (heap st schema_file))))
          = Suc (length (tests_for (nodes (saved_manifest st)) (node_name node)
                           (tests (heap st schema_file))))
      \<and> fid \<in> set (sched_list (project_parser_files st') (project_name (heap st schema_file)) parser)
      \<and> (\<forall>p k. sched_list (project_parser_files st') p k =
            (if p = project_name (heap st schema_file) \<and> k = parser
                \<and> fid \<notin> set (sched_list (project_parser_files st) p k)
             then sched_list (project_parser_files st) p k @ [fid]
             else sched_list (project_parser_files st) p k))"
proof -
  let ?N = "nodes (saved_manifest st)"
  let ?name = "node_name node"
  let ?ts = "tests_for ?N ?name (tests (heap st schema_file))"
  define st1 where
    "st1 = st\<lparr>saved_manifest := (saved_manifest st)\<lparr>nodes := AList.delete unique_id ?N\<rparr>,
              deleted_manifest := (deleted_manifest st)
                \<lparr>nodes := AList.update unique_id node (nodes (deleted_manifest st))\<rparr>\<rparr>"
  have mv: "move_node unique_id st = Inr (node, st1)"
    using node by (simp add: move_node_def dict_pop_def st1_def)
  have h1: "heap st1 = heap st" "file_diff st1 = file_diff st"
    "project_parser_files st1 = project_parser_files st" "saved_files st1 = saved_files st"
    "nodes (saved_manifest st1) = AList.delete unique_id ?N"
    "nodes (deleted_manifest st1) = AList.update unique_id node (nodes (deleted_manifest st))"
    by (simp_all add: st1_def saved_files_def)
  have fe: "find_elem_patch elems ?name None = Inr (Some elem)"
    using find_elem_patch_last_named [OF doc(3), of ?name None] elem by simp
  have nm: "fmlookup elem ''name'' = Some (YStr ?name)"
    using elem by (rule last_named_name)
  then have ne: "elem \<noteq> fmempty" by auto
  have gone: "map_of (nodes (saved_manifest st1)) unique_id = None"
    by (simp add: h1 delete_conv')
  have wf1: "\<forall>t \<in> set (tests (heap st1 schema_file)).
      \<exists>n d ds. map_of (nodes (saved_manifest st1)) t = Some n \<and> depends_on_nodes n = d # ds"
    using wf by (auto simp: h1 delete_conv')
  have same: "tests_for (nodes (saved_manifest st1)) ?name (tests (heap st1 schema_file)) = ?ts"
    unfolding h1 using wf by (intro tests_for_cong) (auto simp: delete_conv')
  from unlink_popped_element [of st1 schema_file elem ?name unique_id p2p, unfolded same]
    owner(3) nm pid gone idx dt wf1
  obtain st2 where st2:
    "delete_schema_mssa_links p2p schema_file ''models'' elem st1 = Inr st2"
    "map_of (nodes (saved_manifest st2)) = map_of (nodes (saved_manifest st1)) |` (- set ?ts)"
    "\<And>k. map_of (nodes (deleted_manifest st2)) k =
            (if k \<in> set ?ts then map_of (nodes (saved_manifest st1)) k
             else map_of (nodes (deleted_manifest st1)) k)"
    "project_parser_files st2 = project_parser_files st1"
    "file_diff st2 = file_diff st1"
    "is_schema_source_file (heap st2 schema_file)"
    "pp_dict (heap st2 schema_file) = pp_dict (heap st1 schema_file)"
    "dfy (heap st2 schema_file) = dfy (heap st1 schema_file)"
    "parse_file_type (heap st2 schema_file) = parse_file_type (heap st1 schema_file)"
    "project_name (heap st2 schema_file) = project_name (heap st1 schema_file)"
    "file_id (heap st2 schema_file) = file_id (heap st1 schema_file)"
    unfolding h1 by blast
  have "\<exists>st3. merge_patch schema_file ''models'' elem st2 = Inr st3"
    using st2(6) doc(1) nm pend
    by (intro merge_patch_returns [where v = v and n = "YStr ?name"])
       (simp_all add: dict_from_yaml_def queued_def st2(7,8) h1)
  then obtain st3 where st3: "merge_patch schema_file ''models'' elem st2 = Inr st3"
    by blast
  note f3 = merge_patch_frame [OF st3, of schema_file]
  have p3: "p2p (parse_file_type (heap st3 schema_file)) = Some parser"
    "project_name (heap st3 schema_file) \<noteq> []"
    using parser f3 by (simp_all add: st2 h1)
  from add_to_pp_files_returns [of p2p st3 schema_file parser] p3 parser(2)
  obtain st4 where st4: "add_to_pp_files p2p schema_file st3 = Inr st4"
    by blast
  have all4: "(heap st4 = heap st3 \<and> saved_manifest st4 = saved_manifest st3
        \<and> deleted_manifest st4 = deleted_manifest st3)
      \<and> (\<forall>p k. sched_list (project_parser_files st4) p k =
            (if p = project_name (heap st schema_file) \<and> k = parser
                \<and> fid \<notin> set (sched_list (project_parser_files st) p k)
             then sched_list (project_parser_files st) p k @ [fid]
             else sched_list (project_parser_files st) p k))"
    using st4
  proof (cases rule: add_to_pp_files_cases)
    case (1 parser')
    with parser path owner f3 show ?thesis by (simp add: st2 h1)
  qed
  define st' where
    "st' = (if unique_id \<in> set (node_patches (heap st4 schema_file)) then
              set_file schema_file
                ((heap st4 schema_file)
                   \<lparr>node_patches := remove1 unique_id (node_patches (heap st4 schema_file))\<rparr>)
                st4
            else st4)"
  have fr: "saved_manifest st' = saved_manifest st2" "deleted_manifest st' = deleted_manifest st2"
    "project_parser_files st' = project_parser_files st4"
    using all4 f3 by (simp_all add: st'_def set_file_def)
  have run: "delete_node_in_saved p2p source_file unique_id st = Inr st'"
    using mv path owner src doc(2) fe ne st2(1) st3 st4
    by (simp add: delete_node_in_saved_def reapply_patch_def h1 parse_file_type_to_key_def
        st'_def)
  have notin: "unique_id \<notin> set ?ts"
    using wf tests_for_subset [of ?N ?name "tests (heap st schema_file)"] by auto
  have saved: "map_of (nodes (saved_manifest st')) = map_of ?N |` (- ({unique_id} \<union> set ?ts))"
    by (rule ext) (simp add: fr st2(2) h1 delete_conv' restrict_map_def)
  have moved: "\<forall>k \<in> {unique_id} \<union> set ?ts.
      map_of (nodes (deleted_manifest st')) k = map_of ?N k"
    using notin node by (auto simp: fr st2(3) h1 delete_conv' update_conv')
  have card: "card ({unique_id} \<union> set ?ts) = Suc (length ?ts)"
    using notin tests_for_distinct [OF dt] by (simp add: distinct_card)
  from all4 have sched: "sched_list (project_parser_files st') p k =
            (if p = project_name (heap st schema_file) \<and> k = parser
                \<and> fid \<notin> set (sched_list (project_parser_files st) p k)
             then sched_list (project_parser_files st) p k @ [fid]
             else sched_list (project_parser_files st) p k)" for p k
    by (simp add: fr)
  have member: "fid \<in> set (sched_list (project_parser_files st')
      (project_name (heap st schema_file)) parser)"
    by (simp add: sched)
  show ?thesis
    using run saved moved card member sched by (intro exI [of _ st']) simp
qed


lemma example_facts:
  "parse_file_type (heap example_state 2) = Model"
  "map_of (saved_files example_state) ''test://schema.yml'' = Some 3"
  "file_id (heap example_state 3) = ''test://schema.yml''"
  "is_schema_source_file (heap example_state 3)"
  "version (dict_from_yaml (heap example_state 3)) = Some (YInt 2)"
  "fmlookup (sections (dict_from_yaml (heap example_state 3))) ''models'' = Some [m3_elem]"
  "fmlookup m3_elem ''name'' = Some (YStr ''m3'')"
  "find_patch_id ''model'' m3_elem (node_patches (heap example_state 3)) = Inr ''model.test.m3''"
  "queued (heap example_state 3) ''models'' = []"
  "index_falsy (pp_test_index (heap example_state 3))"
  "tests (heap example_state 3) = [''test.test.unique_m3'', ''test.test.not_null_m3'']"
  "example_parsers (parse_file_type (heap example_state 3)) = Some ''SchemaParser''"
  "project_name (heap example_state 3) = ''test''"
  "deleted (file_diff example_state) = []"
  "project_parser_files example_state = []"
  by (simp_all add: example_state_def example_heap_def example_schema_file_def blank_file_def
      example_saved_def saved_files_def dict_from_yaml_def queued_def
      m3_elem_def last_part_def example_parsers_def index_falsy_def)

lemma example_nodes:
  "map_of (nodes (saved_manifest example_state)) ''model.test.m3''
   = Some \<lparr>node_name = ''m3'', node_file_id = ''test://m3.sql'',
           patch_path = Some ''test://schema.yml'', depends_on_macros = [''macro.test.a''],
           depends_on_nodes = []\<rparr>"
  "map_of (nodes (saved_manifest example_state)) ''test.test.unique_m3''
   = Some \<lparr>node_name = ''unique_m3'', node_file_id = ''test://schema.yml'',
           patch_path = None, depends_on_macros = [],
           depends_on_nodes = [''model.test.m3'']\<rparr>"
  "map_of (nodes (saved_manifest example_state)) ''test.test.not_null_m3''
   = Some \<lparr>node_name = ''not_null_m3'', node_file_id = ''test://schema.yml'',
           patch_path = None, depends_on_macros = [],
           depends_on_nodes = [''model.test.m3'']\<rparr>"
  by (simp_all add: example_state_def example_saved_def)

lemma example_tests_for:
  "tests_for (nodes (saved_manifest example_state)) ''m3''
     [''test.test.unique_m3'', ''test.test.not_null_m3'']
   = [''test.test.unique_m3'', ''test.test.not_null_m3'']"
  by (simp add: tests_for_def example_nodes last_part_def)

text \<open>
  Witness for C4: deleting the model \<^verbatim>\<open>m3\<close> of the example project, with its two
  tests. The schedule then holds the schema file \<^verbatim>\<open>test://schema.yml\<close>, and no
  model file.
\<close>

theorem C4_cascade_completeness_witness:
  "\<exists>st'. delete_node_in_saved example_parsers 2 ''model.test.m3'' example_state = Inr st'
      \<and> map_of (nodes (saved_manifest st'))
          = map_of (nodes (saved_manifest example_state))
              |` (- ({''model.test.m3''}
                     \<union> set [''test.test.unique_m3'', ''test.test.not_null_m3'']))
      \<and> map_of (nodes (deleted_manifest st')) ''model.test.m3''
          = map_of (nodes (saved_manifest example_state)) ''model.test.m3''
      \<and> map_of (nodes (deleted_manifest st')) ''test.test.unique_m3''
          = map_of (nodes (saved_manifest example_state)) ''test.test.unique_m3''
      \<and> map_of (nodes (deleted_manifest st')) ''test.test.not_null_m3''
          = map_of (nodes (saved_manifest example_state)) ''test.test.not_null_m3''
      \<and> card ({''model.test.m3''} \<union> set [''test.test.unique_m3'', ''test.test.not_null_m3''])
          = Suc 2
      \<and> sched_list (project_parser_files st') ''test'' ''SchemaParser'' = [''test://schema.yml'']
      \<and> sched_list (project_parser_files st') ''test'' ''ModelParser'' = []"
proof -
  let ?node = "\<lparr>node_name = ''m3'', node_file_id = ''test://m3.sql'',
           patch_path = Some ''test://schema.yml'', depends_on_macros = [''macro.test.a''],
           depends_on_nodes = []\<rparr>"
  have path: "patch_path ?node = Some ''test://schema.yml''" "''test://schema.yml'' \<noteq> []"
    "''test://schema.yml'' \<notin> set (deleted (file_diff example_state))"
    by (simp_all add: example_facts)
  have doc: "list_all (\<lambda>e. fmlookup e ''name'' \<noteq> None) [m3_elem]"
    by (simp add: example_facts)
  have elem: "last_named (YStr (node_name ?node)) [m3_elem] = Some m3_elem"
    by (simp add: last_named_def named_def example_facts)
  have pend: "list_all (\<lambda>e. fmlookup e ''name'' \<noteq> None) (queued (heap example_state 3) ''models'')"
    by (simp add: example_facts)
  have dt: "distinct (tests (heap example_state 3))"
    by (simp add: example_facts)
  have wf: "\<forall>t \<in> set (tests (heap example_state 3)).
      t \<noteq> ''model.test.m3''
      \<and> (\<exists>n d ds. map_of (nodes (saved_manifest example_state)) t = Some n
                   \<and> depends_on_nodes n = d # ds)"
    by (simp add: example_facts example_nodes)
  have p: "''SchemaParser'' \<noteq> []" "''model.test.m3'' \<noteq> []"
    "project_name (heap example_state 3) \<noteq> []"
    by (simp_all add: example_facts)
  from C4_cascade_completeness [where st = example_state and unique_id = "''model.test.m3''"
      and node = ?node and source_file = 2 and fid = "''test://schema.yml''" and schema_file = 3
      and v = "YInt 2" and elems = "[m3_elem]" and elem = m3_elem and p2p = example_parsers
      and parser = "''SchemaParser''",
      OF example_nodes(1) example_facts(1) path example_facts(2) example_facts(3)
        example_facts(4) example_facts(5) example_facts(6) doc elem example_facts(8) p(2)
        pend example_facts(10) dt wf example_facts(12) p(1) p(3)]
  obtain st' where
    r: "delete_node_in_saved example_parsers 2 ''model.test.m3'' example_state = Inr st'"
    and s: "map_of (nodes (saved_manifest st'))
          = map_of (nodes (saved_manifest example_state))
              |` (- ({''model.test.m3''}
                     \<union> set [''test.test.unique_m3'', ''test.test.not_null_m3'']))"
    and d: "\<forall>k \<in> {''model.test.m3''}
                     \<union> set [''test.test.unique_m3'', ''test.test.not_null_m3''].
            map_of (nodes (deleted_manifest st')) k
            = map_of (nodes (saved_manifest example_state)) k"
    and c: "card ({''model.test.m3''} \<union> set [''test.test.unique_m3'', ''test.test.not_null_m3''])
          = Suc (length [''test.test.unique_m3'', ''test.test.not_null_m3''])"
    and q: "\<And>p k. sched_list (project_parser_files st') p k =
            (if p = ''test'' \<and> k = ''SchemaParser'' then [''test://schema.yml''] else [])"
    unfolding example_facts example_tests_for sched_list_Nil parsed_node.simps
    by auto
  show ?thesis
    using r s d c by (intro exI [of _ st']) (simp add: q)
qed

end
